theory Spec2Isabelle
  imports Main "HOL-Library.Word"
begin

unbundle bit_operations_syntax

section \<open>Processes: standard error and exit\<close>

text \<open>
  A procedure of the program either returns a value or ends the process through
  \<^verbatim>\<open>exit(code)\<close>. The text written to \<^verbatim>\<open>std::cerr\<close> is threaded through as a
  string: a procedure takes the text written so far and gives back the text after it ran.
\<close>

datatype 'a outcome = Return 'a | Exit int

type_synonym 'a proc = "string \<Rightarrow> 'a outcome \<times> string"

definition newline :: char where
  "newline = CHR 0x0A"

definition dquote :: char where
  "dquote = CHR 0x22"

text \<open>Decimal rendering of an \<^verbatim>\<open>int\<close> by \<^verbatim>\<open>operator<<\<close>.\<close>

fun show_nat :: "nat \<Rightarrow> string" where
  "show_nat n =
     (if n < 10 then [''0123456789'' ! n]
      else show_nat (n div 10) @ [''0123456789'' ! (n mod 10)])"

declare show_nat.simps [simp del]

definition show_int :: "int \<Rightarrow> string" where
  "show_int i = (if i < 0 then CHR ''-'' # show_nat (nat (- i)) else show_nat (nat i))"

section \<open>fst/log.h\<close>

text \<open>
  \<^verbatim>\<open>LogMessage(type)\<close> writes \<^verbatim>\<open>type\<close> and \<^verbatim>\<open>": "\<close> when it is constructed and records
  whether the type is \<^verbatim>\<open>"FATAL"\<close>; the caller streams its text into \<^verbatim>\<open>stream()\<close>, which is
  \<^verbatim>\<open>std::cerr\<close>; the destructor writes \<^verbatim>\<open>std::endl\<close> and calls \<^verbatim>\<open>exit(1)\<close> when the
  message is fatal. \<open>LogMessage type text\<close> is the whole life of one such temporary,
  \<open>text\<close> being what the caller streamed.
\<close>

definition LogMessage :: "string \<Rightarrow> string \<Rightarrow> unit proc" where
  "LogMessage type text cerr =
     (let fatal = (type = ''FATAL'');
          cerr1 = cerr @ type @ '': '';
          cerr2 = cerr1 @ text;
          cerr3 = cerr2 @ [newline]
      in if fatal then (Exit 1, cerr3) else (Return (), cerr3))"

text \<open>\<^verbatim>\<open>#define FST_LOG(type) LogMessage(#type).stream()\<close>, used as \<^verbatim>\<open>FST_LOG(type) << text\<close>.\<close>

definition FST_LOG :: "string \<Rightarrow> string \<Rightarrow> unit proc" where
  "FST_LOG type text = LogMessage type text"

text \<open>\<^verbatim>\<open>#define VFST_LOG(level) if ((level) <= FLAGS_v) FST_LOG(INFO)\<close>.\<close>

definition VFST_LOG :: "int \<Rightarrow> int \<Rightarrow> string \<Rightarrow> unit proc" where
  "VFST_LOG FLAGS_v level text cerr =
     (if level \<le> FLAGS_v then FST_LOG ''INFO'' text cerr else (Return (), cerr))"

text \<open>The text streamed by a failed check.\<close>

definition check_failed_text :: "string \<Rightarrow> string \<Rightarrow> int \<Rightarrow> string" where
  "check_failed_text expr file line =
     ''Check failed: '' @ [dquote] @ expr @ [dquote] @ '' file: '' @ file @
     '' line: '' @ show_int line"

definition FstCheck :: "bool \<Rightarrow> string \<Rightarrow> string \<Rightarrow> int \<Rightarrow> unit proc" where
  "FstCheck x expr file line cerr =
     (if \<not> x then FST_LOG ''FATAL'' (check_failed_text expr file line) cerr
      else (Return (), cerr))"

text \<open>
  \<^verbatim>\<open>#define FST_CHECK(x) FstCheck(static_cast<bool>(x), #x, __FILE__, __LINE__)\<close>:
  the text of the checked expression, the file and the line are fixed where the macro is used.
\<close>

definition FST_CHECK :: "string \<Rightarrow> int \<Rightarrow> string \<Rightarrow> bool \<Rightarrow> unit proc" where
  "FST_CHECK file line expr x = FstCheck x expr file line"

section \<open>bin/fsttopsort-main.cc\<close>

text \<open>
  The driver calls into \<^verbatim>\<open>fst/flags.h\<close> and \<^verbatim>\<open>fst/script/topsort.h\<close>, which are not
  part of the sources at hand. What they answer is a parameter of the model:
  \<^item> \<open>SET_FLAGS usage argv\<close> is the argument vector that flag parsing leaves
    (\<^verbatim>\<open>argc\<close> is its length);
  \<^item> \<open>ReadFst name\<close> is the result of \<^verbatim>\<open>MutableFstClass::Read(name, true)\<close>, \<open>None\<close> for
    the null pointer;
  \<^item> \<open>TopSort f\<close> is the verdict of \<^verbatim>\<open>TopSort\<close> on \<open>f\<close> and the graph it leaves;
  \<^item> \<open>WriteFst f name\<close> is the result of \<^verbatim>\<open>f->Write(name)\<close>.
  Every call is recorded, in order, in the state of the run.
\<close>

record 'f script_api =
  SET_FLAGS :: "string \<Rightarrow> string list \<Rightarrow> string list"
  ReadFst :: "string \<Rightarrow> 'f option"
  TopSort :: "'f \<Rightarrow> bool \<times> 'f"
  WriteFst :: "'f \<Rightarrow> string \<Rightarrow> bool"

datatype 'f call =
    CallSetFlags string "string list"
  | CallShowUsage
  | CallRead string
  | CallTopSort 'f
  | CallWrite 'f string

record 'f run =
  std_cerr :: string
  calls :: "'f call list"

definition called :: "'f call \<Rightarrow> 'f run \<Rightarrow> 'f run" where
  "called c s = s\<lparr>calls := calls s @ [c]\<rparr>"

text \<open>A logging statement of the driver, run on the \<open>std_cerr\<close> of the state.\<close>

definition logging :: "unit proc \<Rightarrow> 'f run \<Rightarrow> unit outcome \<times> 'f run" where
  "logging p s = (case p (std_cerr s) of (r, c) \<Rightarrow> (r, s\<lparr>std_cerr := c\<rparr>))"

text \<open>The usage text, built from \<^verbatim>\<open>argv[0]\<close> before the flags are parsed.\<close>

definition usage_text :: "string \<Rightarrow> string" where
  "usage_text prog =
     ''Topologically sorts an FST.'' @ [newline, newline] @ ''  Usage: '' @ prog @
     '' [in.fst [out.fst]]'' @ [newline]"

text \<open>
  \<^verbatim>\<open>in_name = argc > 1 && strcmp(argv[1], "-") != 0 ? argv[1] : ""\<close> and
  \<^verbatim>\<open>out_name = argc > 2 ? argv[2] : ""\<close>, on the argument vector left by the flags.
\<close>

definition in_name :: "string list \<Rightarrow> string" where
  "in_name argv = (if length argv > 1 \<and> argv ! 1 \<noteq> ''-'' then argv ! 1 else [])"

definition out_name :: "string list \<Rightarrow> string" where
  "out_name argv = (if length argv > 2 then argv ! 2 else [])"

text \<open>
  \<open>fsttopsort_main api argv s\<close> is the value the driver returns (or the code it exits
  with) together with the state it leaves. Reading \<^verbatim>\<open>argv[0]\<close> of an empty argument
  vector is undefined in the source; the model gives \<open>None\<close> there.
  \<^verbatim>\<open>std::set_new_handler\<close> only matters when memory runs out and is left out.
  The value returned is \<^verbatim>\<open>!fst->Write(out_name)\<close> converted to \<^verbatim>\<open>int\<close>.
\<close>

definition fsttopsort_main ::
  "'f script_api \<Rightarrow> string list \<Rightarrow> 'f run \<Rightarrow> (int outcome \<times> 'f run) option" where
  "fsttopsort_main api argv0 s0 =
     (case argv0 of
        [] \<Rightarrow> None
      | prog0 # _ \<Rightarrow>
          (let usage = usage_text prog0;
               argv = SET_FLAGS api usage argv0;
               s1 = called (CallSetFlags usage argv0) s0
           in if length argv > 3 then Some (Return 1, called CallShowUsage s1)
              else
                (let s2 = called (CallRead (in_name argv)) s1
                 in (case ReadFst api (in_name argv) of
                       None \<Rightarrow> Some (Return 1, s2)
                     | Some f \<Rightarrow>
                         (case TopSort api f of
                            (acyclic', f') \<Rightarrow>
                              (let s3 = called (CallTopSort f) s2;
                                   write = (\<lambda>s. Some (Return (if WriteFst api f' (out_name argv) then 0 else 1),
                                                      called (CallWrite f' (out_name argv)) s))
                               in if \<not> acyclic' then
                                    (case argv of
                                       [] \<Rightarrow> None
                                     | prog # _ \<Rightarrow>
                                         (case logging (FST_LOG ''WARNING'' (prog @ '': Input FST is cyclic'')) s3 of
                                            (Exit c, s4) \<Rightarrow> Some (Exit c, s4)
                                          | (Return _, s4) \<Rightarrow> write s4))
                                  else write s3))))))"

section \<open>fst/weight.h, as the harness sees it\<close>

text \<open>
  \<^verbatim>\<open>fst/weight.h\<close> is not part of the sources at hand. The harness is a template over a
  weight class and uses the property bits, \<^verbatim>\<open>Power\<close> and the weight class only through their
  names, so they are parameters of the model: the bits as a record of 64-bit masks, the
  weight class \<^verbatim>\<open>Weight\<close> (with its \<^verbatim>\<open>ReverseWeight\<close>) as a record of its operations.
  \<open>One_w\<close>, \<open>Plus_w\<close> and \<open>Times_w\<close> are \<^verbatim>\<open>One\<close>, \<^verbatim>\<open>Plus\<close> and \<^verbatim>\<open>Times\<close>;
  \<open>equal_w\<close> is \<^verbatim>\<open>operator==\<close>.
\<close>

datatype DivideType = DIVIDE_LEFT | DIVIDE_RIGHT | DIVIDE_ANY

record weight_h =
  kLeftSemiring :: "64 word"
  kRightSemiring :: "64 word"
  kSemiring :: "64 word"
  kCommutative :: "64 word"
  kIdempotent :: "64 word"
  kPath :: "64 word"

record ('w, 'r) weight_class =
  Zero :: 'w
  One_w :: 'w
  NoWeight :: 'w
  Plus_w :: "'w \<Rightarrow> 'w \<Rightarrow> 'w"
  Times_w :: "'w \<Rightarrow> 'w \<Rightarrow> 'w"
  Divide :: "'w \<Rightarrow> 'w \<Rightarrow> DivideType \<Rightarrow> 'w"
  Power :: "'w \<Rightarrow> nat \<Rightarrow> 'w"
  Member :: "'w \<Rightarrow> bool"
  ApproxEqual :: "'w \<Rightarrow> 'w \<Rightarrow> bool"
  equal_w :: "'w \<Rightarrow> 'w \<Rightarrow> bool"
  Properties :: "64 word"
  Type :: string
  Reverse :: "'w \<Rightarrow> 'r"
  Reverse_r :: "'r \<Rightarrow> 'w"
  Plus_r :: "'r \<Rightarrow> 'r \<Rightarrow> 'r"
  Times_r :: "'r \<Rightarrow> 'r \<Rightarrow> 'r"
  equal_r :: "'r \<Rightarrow> 'r \<Rightarrow> bool"
  Write :: "'w \<Rightarrow> string"
  Read :: "'w \<Rightarrow> string \<Rightarrow> 'w"
  Print :: "'w \<Rightarrow> string"
  Scan :: "'w \<Rightarrow> string \<Rightarrow> 'w"
  Default :: 'w
  Copy :: "'w \<Rightarrow> 'w"
  Assign :: "'w \<Rightarrow> 'w \<Rightarrow> 'w"

text \<open>
  \<open>Reverse_r\<close>, \<open>Plus_r\<close>, \<open>Times_r\<close> and \<open>equal_r\<close> are the operations of
  \<^verbatim>\<open>ReverseWeight\<close>. \<open>Write w\<close> is the bytes that \<^verbatim>\<open>w.Write(os)\<close> puts on the stream and
  \<open>Read v bytes\<close> the value of \<open>v\<close> after \<^verbatim>\<open>v.Read(is)\<close> on a stream holding \<open>bytes\<close>;
  \<open>Print\<close> and \<open>Scan\<close> are \<^verbatim>\<open>operator<<\<close> and \<^verbatim>\<open>operator>>\<close> in the same way.
  \<open>Default\<close> is the default-constructed weight, \<open>Copy\<close> the copy constructor and
  \<open>Assign x y\<close> the value of \<open>x\<close> after \<^verbatim>\<open>x = y\<close>. An operation of the record
  is the value of the call expression, and a weight initialised with the result of a call
  is that result. A named weight passed by value to a test function is copy-constructed at
  the call, which the caller writes as \<open>Copy\<close>.
\<close>

text \<open>The conversion of an integer to \<^verbatim>\<open>bool\<close> in a condition.\<close>

definition truth :: "64 word \<Rightarrow> bool" where
  "truth x = (x \<noteq> 0)"

section \<open>test/weight-tester.h\<close>

text \<open>A sequence of statements: the first one that exits ends the process.\<close>

fun block :: "unit proc list \<Rightarrow> unit proc" where
  "block [] cerr = (Return (), cerr)"
| "block (p # ps) cerr =
     (case p cerr of
        (Return _, cerr') \<Rightarrow> block ps cerr'
      | (Exit c, cerr') \<Rightarrow> (Exit c, cerr'))"

text \<open>\<^verbatim>\<open>if (b) statement\<close>.\<close>

definition if_then :: "bool \<Rightarrow> unit proc \<Rightarrow> unit proc" where
  "if_then b p cerr = (if b then p cerr else (Return (), cerr))"

text \<open>
  In the test functions \<open>K\<close> is the property bits, \<open>W\<close> the weight class and \<open>file\<close> the
  value of \<^verbatim>\<open>__FILE__\<close>. Each check carries the line on which it starts in the source and
  the text of its expression.
\<close>

definition TestSemiring ::
  "weight_h \<Rightarrow> ('w, 'r) weight_class \<Rightarrow> string \<Rightarrow> 'w \<Rightarrow> 'w \<Rightarrow> 'w \<Rightarrow> unit proc" where
  "TestSemiring K W file w1 w2 w3 = block [
     FST_CHECK file 56 ''Plus(w1, w2).Member()''
       (Member W (Plus_w W w1 w2)),
     FST_CHECK file 57 ''Times(w1, w2).Member()''
       (Member W (Times_w W w1 w2)),
     FST_CHECK file 60 ''ApproxEqual(Plus(w1, Plus(w2, w3)), Plus(Plus(w1, w2), w3))''
       (ApproxEqual W (Plus_w W w1 (Plus_w W w2 w3)) (Plus_w W (Plus_w W w1 w2) w3)),
     FST_CHECK file 61 ''ApproxEqual(Times(w1, Times(w2, w3)), Times(Times(w1, w2), w3))''
       (ApproxEqual W (Times_w W w1 (Times_w W w2 w3)) (Times_w W (Times_w W w1 w2) w3)),
     FST_CHECK file 64 ''Plus(w1, Weight::Zero()) == w1''
       (equal_w W (Plus_w W w1 (Zero W)) w1),
     FST_CHECK file 65 ''Plus(Weight::Zero(), w1) == w1''
       (equal_w W (Plus_w W (Zero W) w1) w1),
     FST_CHECK file 66 ''Times(w1, Weight::One()) == w1''
       (equal_w W (Times_w W w1 (One_w W)) w1),
     FST_CHECK file 67 ''Times(Weight::One(), w1) == w1''
       (equal_w W (Times_w W (One_w W) w1) w1),
     FST_CHECK file 70 ''!Weight::NoWeight().Member()''
       (\<not> Member W (NoWeight W)),
     FST_CHECK file 71 ''!Plus(w1, Weight::NoWeight()).Member()''
       (\<not> Member W (Plus_w W w1 (NoWeight W))),
     FST_CHECK file 72 ''!Plus(Weight::NoWeight(), w1).Member()''
       (\<not> Member W (Plus_w W (NoWeight W) w1)),
     FST_CHECK file 73 ''!Times(w1, Weight::NoWeight()).Member()''
       (\<not> Member W (Times_w W w1 (NoWeight W))),
     FST_CHECK file 74 ''!Times(Weight::NoWeight(), w1).Member()''
       (\<not> Member W (Times_w W (NoWeight W) w1)),
     FST_CHECK file 77 ''ApproxEqual(Plus(w1, w2), Plus(w2, w1))''
       (ApproxEqual W (Plus_w W w1 w2) (Plus_w W w2 w1)),
     if_then (truth (Properties W AND kCommutative K))
       (FST_CHECK file 80 ''ApproxEqual(Times(w1, w2), Times(w2, w1))''
          (ApproxEqual W (Times_w W w1 w2) (Times_w W w2 w1))),
     FST_CHECK file 83 ''Times(w1, Weight::Zero()) == Weight::Zero()''
       (equal_w W (Times_w W w1 (Zero W)) (Zero W)),
     FST_CHECK file 84 ''Times(Weight::Zero(), w1) == Weight::Zero()''
       (equal_w W (Times_w W (Zero W) w1) (Zero W)),
     FST_CHECK file 87 ''Power(w1, 0) == Weight::One()''
       (equal_w W (Power W w1 0) (One_w W)),
     FST_CHECK file 90 ''Power(w1, 1) == w1''
       (equal_w W (Power W w1 1) w1),
     FST_CHECK file 93 ''Power(w1, 3) == Times(w1, Times(w1, w1))''
       (equal_w W (Power W w1 3) (Times_w W w1 (Times_w W w1 w1))),
     if_then (truth (Properties W AND kLeftSemiring K))
       (FST_CHECK file 97 ''ApproxEqual(Times(w1, Plus(w2, w3)), Plus(Times(w1, w2), Times(w1, w3)))''
          (ApproxEqual W (Times_w W w1 (Plus_w W w2 w3))
             (Plus_w W (Times_w W w1 w2) (Times_w W w1 w3)))),
     if_then (truth (Properties W AND kRightSemiring K))
       (FST_CHECK file 101 ''ApproxEqual(Times(Plus(w1, w2), w3), Plus(Times(w1, w3), Times(w2, w3)))''
          (ApproxEqual W (Times_w W (Plus_w W w1 w2) w3)
             (Plus_w W (Times_w W w1 w3) (Times_w W w2 w3)))),
     if_then (truth (Properties W AND kIdempotent K))
       (FST_CHECK file 104 ''Plus(w1, w1) == w1''
          (equal_w W (Plus_w W w1 w1) w1)),
     if_then (truth (Properties W AND kPath K))
       (FST_CHECK file 107 ''Plus(w1, w2) == w1 || Plus(w1, w2) == w2''
          (equal_w W (Plus_w W w1 w2) w1 \<or> equal_w W (Plus_w W w1 w2) w2)),
     FST_CHECK file 110 ''Weight::Properties() & (kLeftSemiring | kRightSemiring)''
       (truth (Properties W AND (kLeftSemiring K OR kRightSemiring K))),
     if_then (truth (Properties W AND kCommutative K))
       (FST_CHECK file 114 ''Weight::Properties() & kSemiring''
          (truth (Properties W AND kSemiring K)))]"

definition TestDivision ::
  "weight_h \<Rightarrow> ('w, 'r) weight_class \<Rightarrow> string \<Rightarrow> 'w \<Rightarrow> 'w \<Rightarrow> unit proc" where
  "TestDivision K W file w1 w2 =
     (let p = Times_w W w1 w2 in block [
        if_then (truth (Properties W AND kLeftSemiring K))
          (let d = Divide W p w1 DIVIDE_LEFT in block [
             if_then (Member W d)
               (FST_CHECK file 123 ''ApproxEqual(p, Times(w1, d))''
                  (ApproxEqual W p (Times_w W w1 d))),
             FST_CHECK file 124 ''!Divide(w1, Weight::NoWeight(), DIVIDE_LEFT).Member()''
               (\<not> Member W (Divide W w1 (NoWeight W) DIVIDE_LEFT)),
             FST_CHECK file 125 ''!Divide(Weight::NoWeight(), w1, DIVIDE_LEFT).Member()''
               (\<not> Member W (Divide W (NoWeight W) w1 DIVIDE_LEFT))]),
        if_then (truth (Properties W AND kRightSemiring K))
          (let d = Divide W p w2 DIVIDE_RIGHT in block [
             if_then (Member W d)
               (FST_CHECK file 130 ''ApproxEqual(p, Times(d, w2))''
                  (ApproxEqual W p (Times_w W d w2))),
             FST_CHECK file 131 ''!Divide(w1, Weight::NoWeight(), DIVIDE_RIGHT).Member()''
               (\<not> Member W (Divide W w1 (NoWeight W) DIVIDE_RIGHT)),
             FST_CHECK file 132 ''!Divide(Weight::NoWeight(), w1, DIVIDE_RIGHT).Member()''
               (\<not> Member W (Divide W (NoWeight W) w1 DIVIDE_RIGHT))]),
        if_then (truth (Properties W AND kCommutative K))
          (let d = Divide W p w1 DIVIDE_RIGHT in block [
             if_then (Member W d)
               (FST_CHECK file 137 ''ApproxEqual(p, Times(d, w1))''
                  (ApproxEqual W p (Times_w W d w1)))])])"

definition TestReverse ::
  "('w, 'r) weight_class \<Rightarrow> string \<Rightarrow> 'w \<Rightarrow> 'w \<Rightarrow> unit proc" where
  "TestReverse W file w1 w2 =
     (let rw1 = Reverse W w1;
          rw2 = Reverse W w2
      in block [
        FST_CHECK file 148 ''rw1.Reverse() == w1''
          (equal_w W (Reverse_r W rw1) w1),
        FST_CHECK file 149 ''Plus(w1, w2).Reverse() == Plus(rw1, rw2)''
          (equal_r W (Reverse W (Plus_w W w1 w2)) (Plus_r W rw1 rw2)),
        FST_CHECK file 150 ''Times(w1, w2).Reverse() == Times(rw2, rw1)''
          (equal_r W (Reverse W (Times_w W w1 w2)) (Times_r W rw2 rw1))])"

definition TestEquality ::
  "('w, 'r) weight_class \<Rightarrow> string \<Rightarrow> 'w \<Rightarrow> 'w \<Rightarrow> 'w \<Rightarrow> unit proc" where
  "TestEquality W file w1 w2 w3 = block [
     FST_CHECK file 156 ''w1 == w1''
       (equal_w W w1 w1),
     FST_CHECK file 159 ''(w1 == w2) == (w2 == w1)''
       (equal_w W w1 w2 = equal_w W w2 w1),
     if_then (equal_w W w1 w2 \<and> equal_w W w2 w3)
       (FST_CHECK file 162 ''w1 == w3''
          (equal_w W w1 w3))]"

text \<open>\<^verbatim>\<open>FST_CHECK_EQ(x, y)\<close> is \<^verbatim>\<open>FST_CHECK((x) == (y))\<close>.\<close>

definition TestIO :: "('w, 'r) weight_class \<Rightarrow> string \<Rightarrow> 'w \<Rightarrow> unit proc" where
  "TestIO W file w = block [
     (let os = Write W w;
          v = Read W (Default W) os
      in FST_CHECK file 175 ''(w) == (v)''
           (equal_w W w v)),
     (let os = Print W w;
          v = Scan W (One_w W) os
      in FST_CHECK file 185 ''ApproxEqual(w, v)''
           (ApproxEqual W w v))]"

definition TestCopy :: "('w, 'r) weight_class \<Rightarrow> string \<Rightarrow> 'w \<Rightarrow> unit proc" where
  "TestCopy W file w =
     (let x1 = Copy W w;
          x2 = Assign W x1 (Copy W w);
          x3 = Assign W x2 x2
      in block [
        FST_CHECK file 192 ''w == x'' (equal_w W w x1),
        FST_CHECK file 195 ''w == x'' (equal_w W w x2),
        FST_CHECK file 198 ''w == x'' (equal_w W w x3)])"

text \<open>
  The tester: the weight class it is instantiated with, its generator (a function object
  with a state of its own, \<open>weight_generator T g\<close> being the weight drawn in state \<open>g\<close>
  and the state after), and what the translation unit is compiled and run with.
\<close>

record ('w, 'r, 'g) WeightTester =
  weight_bits :: weight_h
  Weight :: "('w, 'r) weight_class"
  weight_generator :: "'g \<Rightarrow> 'w \<times> 'g"
  FILE :: string
  FLAGS_v :: int

text \<open>
  The body of the loop of \<^verbatim>\<open>Test\<close>. The three weights are drawn one after the other,
  each initialised with what the generator returns; every test function takes its weights
  by value, so each call works on copies. The log lines print the drawn weights.
\<close>

definition Test_body ::
  "('w, 'r, 'g) WeightTester \<Rightarrow> bool \<Rightarrow> 'g \<Rightarrow> string \<Rightarrow> (unit outcome \<times> string) \<times> 'g" where
  "Test_body T test_division g cerr =
     (case weight_generator T g of (w1, g1) \<Rightarrow>
      case weight_generator T g1 of (w2, g2) \<Rightarrow>
      case weight_generator T g2 of (w3, g3) \<Rightarrow>
        (block [
           VFST_LOG (FLAGS_v T) 1 (''weight type = '' @ Type (Weight T)),
           VFST_LOG (FLAGS_v T) 1 (''w1 = '' @ Print (Weight T) w1),
           VFST_LOG (FLAGS_v T) 1 (''w2 = '' @ Print (Weight T) w2),
           VFST_LOG (FLAGS_v T) 1 (''w3 = '' @ Print (Weight T) w3),
           TestSemiring (weight_bits T) (Weight T) (FILE T)
             (Copy (Weight T) w1) (Copy (Weight T) w2) (Copy (Weight T) w3),
           if_then test_division
             (TestDivision (weight_bits T) (Weight T) (FILE T)
                (Copy (Weight T) w1) (Copy (Weight T) w2)),
           TestReverse (Weight T) (FILE T) (Copy (Weight T) w1) (Copy (Weight T) w2),
           TestEquality (Weight T) (FILE T)
             (Copy (Weight T) w1) (Copy (Weight T) w2) (Copy (Weight T) w3),
           TestIO (Weight T) (FILE T) (Copy (Weight T) w1),
           TestCopy (Weight T) (FILE T) (Copy (Weight T) w1)] cerr, g3))"

text \<open>\<^verbatim>\<open>for (int i = 0; i < iterations; ++i)\<close>, from the value \<open>i\<close> of the counter on.\<close>

function Test_for ::
  "('w, 'r, 'g) WeightTester \<Rightarrow> bool \<Rightarrow> int \<Rightarrow> int \<Rightarrow> 'g \<Rightarrow> string \<Rightarrow>
   (unit outcome \<times> string) \<times> 'g" where
  "Test_for T test_division iterations i g cerr =
     (if i < iterations then
        (case Test_body T test_division g cerr of
           ((Return _, cerr'), g') \<Rightarrow> Test_for T test_division iterations (i + 1) g' cerr'
         | ((Exit c, cerr'), g') \<Rightarrow> ((Exit c, cerr'), g'))
      else ((Return (), cerr), g))"
  by pat_completeness auto
termination
  by (relation "measure (\<lambda>(T, td, n, i, g, cerr). nat (n - i))") auto

declare Test_for.simps [simp del]

definition Test ::
  "('w, 'r, 'g) WeightTester \<Rightarrow> int \<Rightarrow> bool \<Rightarrow> 'g \<Rightarrow> string \<Rightarrow> (unit outcome \<times> string) \<times> 'g" where
  "Test T iterations test_division g cerr = Test_for T test_division iterations 0 g cerr"

section \<open>The weights a run draws\<close>

text \<open>
  \<open>generator_after T g n\<close> is the state of the generator after \<open>n\<close> draws from state
  \<open>g\<close>, and \<open>drawn T g n\<close> the weight of draw number \<open>n\<close>, counted from 0. Round \<open>k\<close> of
  \<^verbatim>\<open>Test\<close>, counted from 0, makes the draws \<open>3 * k\<close>, \<open>3 * k + 1\<close> and \<open>3 * k + 2\<close>,
  which are its \<^verbatim>\<open>w1\<close>, \<^verbatim>\<open>w2\<close> and \<^verbatim>\<open>w3\<close>.
\<close>

fun generator_after :: "('w, 'r, 'g) WeightTester \<Rightarrow> 'g \<Rightarrow> nat \<Rightarrow> 'g" where
  "generator_after T g 0 = g"
| "generator_after T g (Suc n) = snd (weight_generator T (generator_after T g n))"

definition drawn :: "('w, 'r, 'g) WeightTester \<Rightarrow> 'g \<Rightarrow> nat \<Rightarrow> 'w" where
  "drawn T g n = fst (weight_generator T (generator_after T g n))"

text \<open>
  The test functions take their weights by value, so what a test function of round \<open>k\<close>
  works on as \<^verbatim>\<open>w1\<close>, \<^verbatim>\<open>w2\<close> and \<^verbatim>\<open>w3\<close> is a copy of the round's first, second
  and third draw.
\<close>

definition round_w1 :: "('w, 'r, 'g) WeightTester \<Rightarrow> 'g \<Rightarrow> nat \<Rightarrow> 'w" where
  "round_w1 T g k = Copy (Weight T) (drawn T g (3 * k))"

definition round_w2 :: "('w, 'r, 'g) WeightTester \<Rightarrow> 'g \<Rightarrow> nat \<Rightarrow> 'w" where
  "round_w2 T g k = Copy (Weight T) (drawn T g (3 * k + 1))"

definition round_w3 :: "('w, 'r, 'g) WeightTester \<Rightarrow> 'g \<Rightarrow> nat \<Rightarrow> 'w" where
  "round_w3 T g k = Copy (Weight T) (drawn T g (3 * k + 2))"

text \<open>
  A procedure that, whenever it exits, exits with code 1 right after a fatal message about a
  failed check of the file.
\<close>

definition fatal_exits :: "string \<Rightarrow> unit proc \<Rightarrow> bool" where
  "fatal_exits file p =
     (\<forall>cerr c cerr'. p cerr = (Exit c, cerr') \<longrightarrow>
        c = 1 \<and> (\<exists>pre expr line.
                   cerr' = pre @ ''FATAL: '' @ check_failed_text expr file line @ [newline]))"

section \<open>Instances for the examples\<close>

text \<open>
  A stand-in for the script library: a graph is represented by the verdict that
  \<^verbatim>\<open>TopSort\<close> gives on it, no flag is consumed, two names can be read and one cannot be
  written.
\<close>

definition example_api :: "bool script_api" where
  "example_api =
     \<lparr>SET_FLAGS = (\<lambda>usage argv. argv),
      ReadFst = (\<lambda>name. if name = ''cyclic.fst'' then Some False
                         else if name = ''dag.fst'' then Some True else None),
      TopSort = (\<lambda>f. (f, f)),
      WriteFst = (\<lambda>f name. name \<noteq> ''/dev/full'')\<rparr>"

text \<open>
  Modelled from the spec: \<^verbatim>\<open>fst/weight.h\<close>, which defines the property bits, is not part
  of the sources at hand. Section 3 of the spec lists the properties as LeftSemiring,
  RightSemiring, Semiring, Commutative, Idempotent and Path and describes Semiring as both
  LeftSemiring and RightSemiring. \<open>openfst_bits\<close> gives each property its bit in that order,
  \<open>kSemiring\<close> being the two bits of LeftSemiring and RightSemiring, and a mask declares
  Semiring when it declares both of them.
\<close>

definition openfst_bits :: weight_h where
  "openfst_bits = \<lparr>kLeftSemiring = 1, kRightSemiring = 2, kSemiring = 3,
                    kCommutative = 4, kIdempotent = 8, kPath = 16\<rparr>"

definition declares_Semiring :: "weight_h \<Rightarrow> 64 word \<Rightarrow> bool" where
  "declares_Semiring K P =
     (truth (P AND kLeftSemiring K) \<and> truth (P AND kRightSemiring K))"

text \<open>
  A generator that hands out the weights of a list in turn, again and again, and a tester
  for a weight class with this generator.
\<close>

fun cycle :: "'w \<Rightarrow> 'w list \<Rightarrow> 'w \<times> 'w list" where
  "cycle d (w # ws) = (w, ws @ [w])"
| "cycle d [] = (d, [])"

definition tester :: "('w, 'r) weight_class \<Rightarrow> ('w, 'r, 'w list) WeightTester" where
  "tester W =
     \<lparr>weight_bits = openfst_bits, Weight = W,
      weight_generator = cycle (Zero W), FILE = ''weight-tester.h'', FLAGS_v = 0\<rparr>"

text \<open>
  A small weight class: the levels 0, 1 and 2 with \<^verbatim>\<open>Plus\<close> the maximum and
  \<^verbatim>\<open>Times\<close> the minimum, so \<^verbatim>\<open>Zero\<close> is level 0 and \<^verbatim>\<open>One\<close> is level 2; \<open>None\<close> is
  \<^verbatim>\<open>NoWeight\<close>. A level is written as one stroke more than its value. The property mask
  and the division are left open.
\<close>

type_synonym level = "nat option"

definition level_Plus :: "level \<Rightarrow> level \<Rightarrow> level" where
  "level_Plus a b =
     (case a of None \<Rightarrow> None
      | Some x \<Rightarrow> (case b of None \<Rightarrow> None | Some y \<Rightarrow> Some (max x y)))"

definition level_Times :: "level \<Rightarrow> level \<Rightarrow> level" where
  "level_Times a b =
     (case a of None \<Rightarrow> None
      | Some x \<Rightarrow> (case b of None \<Rightarrow> None | Some y \<Rightarrow> Some (min x y)))"

definition level_Member :: "level \<Rightarrow> bool" where
  "level_Member a = (case a of None \<Rightarrow> False | Some x \<Rightarrow> x \<le> 2)"

primrec level_Power :: "level \<Rightarrow> nat \<Rightarrow> level" where
  "level_Power a 0 = Some 2"
| "level_Power a (Suc n) = level_Times (level_Power a n) a"

definition level_Write :: "level \<Rightarrow> string" where
  "level_Write a = (case a of None \<Rightarrow> [] | Some x \<Rightarrow> replicate (Suc x) (CHR ''|''))"

definition level_Read :: "level \<Rightarrow> string \<Rightarrow> level" where
  "level_Read v s = (case s of [] \<Rightarrow> None | _ # t \<Rightarrow> Some (length t))"

text \<open>The quotient of \<open>a\<close> by \<open>b\<close> exists when \<open>a\<close> is at most \<open>b\<close>, and is \<open>a\<close>.\<close>

definition level_Divide :: "level \<Rightarrow> level \<Rightarrow> DivideType \<Rightarrow> level" where
  "level_Divide a b t =
     (case a of None \<Rightarrow> None
      | Some x \<Rightarrow> (case b of None \<Rightarrow> None | Some y \<Rightarrow> if x \<le> y then Some x else None))"

text \<open>A division that does not look at the divisor when it divides on the given side.\<close>

definition careless_Divide :: "DivideType \<Rightarrow> level \<Rightarrow> level \<Rightarrow> DivideType \<Rightarrow> level" where
  "careless_Divide side a b t = (if t = side then a else level_Divide a b t)"

text \<open>
  A division that, on the right, answers level 2 for a level divided by itself: another
  quotient of the same division.
\<close>

definition skewed_Divide :: "level \<Rightarrow> level \<Rightarrow> DivideType \<Rightarrow> level" where
  "skewed_Divide a b t =
     (if t = DIVIDE_RIGHT \<and> a = b \<and> a \<noteq> None then Some 2 else level_Divide a b t)"

definition level_weight ::
  "64 word \<Rightarrow> (level \<Rightarrow> level \<Rightarrow> DivideType \<Rightarrow> level) \<Rightarrow> (level, level) weight_class" where
  "level_weight props dv =
     \<lparr>Zero = Some 0, One_w = Some 2, NoWeight = None,
      Plus_w = level_Plus, Times_w = level_Times, Divide = dv, Power = level_Power,
      Member = level_Member, ApproxEqual = (=), equal_w = (=),
      Properties = props, Type = ''level'',
      Reverse = (\<lambda>a. a), Reverse_r = (\<lambda>a. a), Plus_r = level_Plus, Times_r = level_Times,
      equal_r = (=),
      Write = level_Write, Read = level_Read, Print = level_Write, Scan = level_Read,
      Default = Some 0, Copy = (\<lambda>a. a), Assign = (\<lambda>x y. y)\<rparr>"

definition level_tester ::
  "64 word \<Rightarrow> (level \<Rightarrow> level \<Rightarrow> DivideType \<Rightarrow> level) \<Rightarrow>
   (level, level, level list) WeightTester" where
  "level_tester props dv = tester (level_weight props dv)"

text \<open>
  Three variants of the level class with all properties declared: one whose \<^verbatim>\<open>Plus\<close>
  lets level 2 absorb a \<^verbatim>\<open>NoWeight\<close> on its right, one that writes and prints level 1
  as level 0, and one whose copy constructor always yields level 0.
\<close>

definition lenient_Plus :: "level \<Rightarrow> level \<Rightarrow> level" where
  "lenient_Plus a b = (if a = Some 2 \<and> b = None then Some 2 else level_Plus a b)"

definition lenient_weight :: "(level, level) weight_class" where
  "lenient_weight = (level_weight 31 level_Divide)\<lparr>Plus_w := lenient_Plus\<rparr>"

definition lossy_Write :: "level \<Rightarrow> string" where
  "lossy_Write a = (if a = Some 1 then level_Write (Some 0) else level_Write a)"

definition lossy_weight :: "(level, level) weight_class" where
  "lossy_weight = (level_weight 31 level_Divide)\<lparr>Write := lossy_Write, Print := lossy_Write\<rparr>"

definition flattening_weight :: "(level, level) weight_class" where
  "flattening_weight = (level_weight 31 level_Divide)\<lparr>Copy := (\<lambda>a. Some 0)\<rparr>"

text \<open>
  A weight class that tells \<^verbatim>\<open>operator==\<close> from \<^verbatim>\<open>ApproxEqual\<close>: a level with a tag.
  \<^verbatim>\<open>operator==\<close> compares level and tag, \<^verbatim>\<open>ApproxEqual\<close> the level only. \<^verbatim>\<open>Plus\<close>
  and \<^verbatim>\<open>Times\<close> are maximum and minimum on the levels and mix the tags in a way that
  depends on the order and the grouping of the operands; with \<^verbatim>\<open>Zero\<close> or \<^verbatim>\<open>One\<close> as
  an operand they give the exact result. The binary form keeps the tag, the text form drops
  it. The class declares \<^verbatim>\<open>LeftSemiring\<close>, \<^verbatim>\<open>RightSemiring\<close> and \<^verbatim>\<open>Commutative\<close>, and
  no division has a quotient. \<^verbatim>\<open>Plus\<close> is left open: \<open>tagged_Plus\<close> is the one described,
  \<open>mix max\<close> one that mixes the tags also when an operand is \<^verbatim>\<open>Zero\<close>.
\<close>

type_synonym tagged = "(nat \<times> nat) option"

definition mix :: "(nat \<Rightarrow> nat \<Rightarrow> nat) \<Rightarrow> tagged \<Rightarrow> tagged \<Rightarrow> tagged" where
  "mix f x y =
     (case x of None \<Rightarrow> None
      | Some (a, s) \<Rightarrow>
          (case y of None \<Rightarrow> None | Some (b, t) \<Rightarrow> Some (f a b, s + 2 * t + 1)))"

definition tagged_Plus :: "tagged \<Rightarrow> tagged \<Rightarrow> tagged" where
  "tagged_Plus x y =
     (if x = None \<or> y = None then None
      else if y = Some (0, 0) then x
      else if x = Some (0, 0) then y
      else mix max x y)"

definition tagged_Times :: "tagged \<Rightarrow> tagged \<Rightarrow> tagged" where
  "tagged_Times x y =
     (if x = None \<or> y = None then None
      else if x = Some (0, 0) \<or> y = Some (0, 0) then Some (0, 0)
      else if y = Some (2, 0) then x
      else if x = Some (2, 0) then y
      else mix min x y)"

primrec tagged_Power :: "tagged \<Rightarrow> nat \<Rightarrow> tagged" where
  "tagged_Power w 0 = Some (2, 0)"
| "tagged_Power w (Suc n) = tagged_Times w (tagged_Power w n)"

definition tagged_Member :: "tagged \<Rightarrow> bool" where
  "tagged_Member x = (case x of None \<Rightarrow> False | Some (a, s) \<Rightarrow> a \<le> 2)"

definition tagged_ApproxEqual :: "tagged \<Rightarrow> tagged \<Rightarrow> bool" where
  "tagged_ApproxEqual x y = (map_option fst x = map_option fst y)"

definition tagged_Write :: "tagged \<Rightarrow> string" where
  "tagged_Write x =
     (case x of None \<Rightarrow> []
      | Some (a, s) \<Rightarrow> replicate (Suc a) (CHR ''|'') @ replicate s (CHR ''.''))"

definition tagged_Print :: "tagged \<Rightarrow> string" where
  "tagged_Print x = (case x of None \<Rightarrow> [] | Some (a, s) \<Rightarrow> replicate (Suc a) (CHR ''|''))"

definition tagged_Read :: "tagged \<Rightarrow> string \<Rightarrow> tagged" where
  "tagged_Read v str =
     (if str = [] then None
      else Some (length (filter (\<lambda>c. c = CHR ''|'') str) - 1,
                 length (filter (\<lambda>c. c = CHR ''.'') str)))"

definition tagged_weight ::
  "(tagged \<Rightarrow> tagged \<Rightarrow> tagged) \<Rightarrow> (tagged, tagged) weight_class" where
  "tagged_weight pl =
     \<lparr>Zero = Some (0, 0), One_w = Some (2, 0), NoWeight = None,
      Plus_w = pl, Times_w = tagged_Times, Divide = (\<lambda>a b t. None), Power = tagged_Power,
      Member = tagged_Member, ApproxEqual = tagged_ApproxEqual, equal_w = (=),
      Properties = 7, Type = ''tagged'',
      Reverse = (\<lambda>a. a), Reverse_r = (\<lambda>a. a), Plus_r = pl,
      Times_r = (\<lambda>x y. tagged_Times y x), equal_r = (=),
      Write = tagged_Write, Read = tagged_Read, Print = tagged_Print, Scan = tagged_Read,
      Default = Some (0, 0), Copy = (\<lambda>a. a), Assign = (\<lambda>x y. y)\<rparr>"

text \<open>The testers and the draws of the runs on the tagged class.\<close>

definition tagged_tester :: "(tagged, tagged, tagged list) WeightTester" where
  "tagged_tester = tester (tagged_weight tagged_Plus)"

definition sloppy_tester :: "(tagged, tagged, tagged list) WeightTester" where
  "sloppy_tester = tester (tagged_weight (mix max))"

definition tagged_draws :: "tagged list" where
  "tagged_draws = [Some (1, 1), Some (2, 2), Some (1, 3)]"

section \<open>Logging and checks\<close>

lemma LogMessage_eq:
  "LogMessage type text cerr =
     (if type = ''FATAL'' then Exit 1 else Return (), cerr @ type @ '': '' @ text @ [newline])"
  by (simp add: LogMessage_def Let_def)

lemma FST_CHECK_eq:
  "FST_CHECK file line expr x cerr =
     (if x then (Return (), cerr)
      else (Exit 1, cerr @ ''FATAL: '' @ check_failed_text expr file line @ [newline]))"
  by (simp add: FST_CHECK_def FstCheck_def FST_LOG_def LogMessage_eq)

lemma VFST_LOG_eq:
  "VFST_LOG v level text cerr =
     (Return (), if level \<le> v then cerr @ ''INFO: '' @ text @ [newline] else cerr)"
  by (simp add: VFST_LOG_def FST_LOG_def LogMessage_eq)

section \<open>Blocks of statements\<close>

lemma block_append:
  "block (ps @ qs) cerr =
     (case block ps cerr of (Return _, c1) \<Rightarrow> block qs c1 | (Exit c, c1) \<Rightarrow> (Exit c, c1))"
  by (induction ps arbitrary: cerr) (auto split: prod.splits outcome.splits)

lemma block_block: "block (block qs # ps) = block (qs @ ps)"
  by (auto simp: fun_eq_iff block_append split: prod.splits outcome.splits)

lemma if_then_block: "if_then b (block ps) = block (map (if_then b) ps)"
proof
  fix cerr
  show "if_then b (block ps) cerr = block (map (if_then b) ps) cerr"
    by (induction ps arbitrary: cerr) (auto simp: if_then_def split: prod.splits outcome.splits)
qed

lemma if_then_if_then: "if_then b (if_then c p) = if_then (b \<and> c) p"
  by (auto simp: if_then_def fun_eq_iff)

lemma block_check_Return:
  "(block (FST_CHECK file line expr x # ps) cerr = (Return u, c')) =
     (x \<and> block ps cerr = (Return u, c'))"
  by (auto simp: FST_CHECK_eq)

lemma block_if_check_Return:
  "(block (if_then b (FST_CHECK file line expr x) # ps) cerr = (Return u, c')) =
     ((b \<longrightarrow> x) \<and> block ps cerr = (Return u, c'))"
  by (auto simp: FST_CHECK_eq if_then_def)

lemma block_Nil_Return: "(block [] cerr = (Return u, c')) = (c' = cerr)"
  by auto

lemma block_Cons_Return:
  "(block (p # ps) cerr = (Return u, c')) =
     (\<exists>c1. p cerr = (Return (), c1) \<and> block ps c1 = (Return u, c'))"
  by (auto split: prod.splits outcome.splits)

lemmas returns = block_check_Return block_if_check_Return block_Nil_Return
  if_then_block if_then_if_then block_block

section \<open>Every exit of the harness is a failed check\<close>

lemma fatal_exits_FST_CHECK: "fatal_exits file (FST_CHECK file line expr x)"
  unfolding fatal_exits_def FST_CHECK_eq by (auto split: if_splits)

lemma fatal_exits_VFST_LOG: "fatal_exits file (VFST_LOG v level text)"
  unfolding fatal_exits_def VFST_LOG_eq by simp

lemma fatal_exits_if_then: "fatal_exits file p \<Longrightarrow> fatal_exits file (if_then b p)"
  unfolding fatal_exits_def if_then_def by (auto split: if_splits)

lemma fatal_exits_block:
  assumes "\<And>p. p \<in> set ps \<Longrightarrow> fatal_exits file p"
  shows "fatal_exits file (block ps)"
  using assms
proof (induction ps)
  case Nil
  show ?case by (simp add: fatal_exits_def)
next
  case (Cons p ps)
  have p: "fatal_exits file p" and rest: "fatal_exits file (block ps)"
    using Cons by simp_all
  show ?case
    unfolding fatal_exits_def
  proof (intro allI impI)
    fix cerr c cerr'
    assume run: "block (p # ps) cerr = (Exit c, cerr')"
    obtain r c1 where first: "p cerr = (r, c1)" by (cases "p cerr")
    show "c = 1 \<and> (\<exists>pre expr line.
            cerr' = pre @ ''FATAL: '' @ check_failed_text expr file line @ [newline])"
    proof (cases r)
      case (Return u)
      with run first have "block ps c1 = (Exit c, cerr')" by simp
      with rest show ?thesis unfolding fatal_exits_def by blast
    next
      case (Exit d)
      with run first have "p cerr = (Exit c, cerr')" by simp
      with p show ?thesis unfolding fatal_exits_def by blast
    qed
  qed
qed

lemmas fatal_intros = fatal_exits_FST_CHECK fatal_exits_VFST_LOG fatal_exits_if_then

lemma fatal_exits_TestSemiring: "fatal_exits file (TestSemiring K W file w1 w2 w3)"
  unfolding TestSemiring_def
  by (rule fatal_exits_block) (auto intro: fatal_intros)

lemma fatal_exits_TestDivision: "fatal_exits file (TestDivision K W file w1 w2)"
  unfolding TestDivision_def Let_def
  by (rule fatal_exits_block) (auto intro!: fatal_intros fatal_exits_block)

lemma fatal_exits_TestReverse: "fatal_exits file (TestReverse W file w1 w2)"
  unfolding TestReverse_def Let_def
  by (rule fatal_exits_block) (auto intro: fatal_intros)

lemma fatal_exits_TestEquality: "fatal_exits file (TestEquality W file w1 w2 w3)"
  unfolding TestEquality_def
  by (rule fatal_exits_block) (auto intro: fatal_intros)

lemma fatal_exits_TestIO: "fatal_exits file (TestIO W file w)"
  unfolding TestIO_def Let_def
  by (rule fatal_exits_block) (auto intro: fatal_intros)

lemma fatal_exits_TestCopy: "fatal_exits file (TestCopy W file w)"
  unfolding TestCopy_def Let_def
  by (rule fatal_exits_block) (auto intro: fatal_intros)

section \<open>The rounds of a run\<close>

lemma generator_after_add:
  "generator_after T (generator_after T g a) b = generator_after T g (a + b)"
  by (induction b) simp_all

lemma drawn_after: "drawn T (generator_after T g a) b = drawn T g (a + b)"
  by (simp add: drawn_def generator_after_add)

lemma Test_body_eq:
  "Test_body T td g cerr =
     (block [
        VFST_LOG (FLAGS_v T) 1 (''weight type = '' @ Type (Weight T)),
        VFST_LOG (FLAGS_v T) 1 (''w1 = '' @ Print (Weight T) (drawn T g 0)),
        VFST_LOG (FLAGS_v T) 1 (''w2 = '' @ Print (Weight T) (drawn T g 1)),
        VFST_LOG (FLAGS_v T) 1 (''w3 = '' @ Print (Weight T) (drawn T g 2)),
        TestSemiring (weight_bits T) (Weight T) (FILE T)
          (round_w1 T g 0) (round_w2 T g 0) (round_w3 T g 0),
        if_then td (TestDivision (weight_bits T) (Weight T) (FILE T)
          (round_w1 T g 0) (round_w2 T g 0)),
        TestReverse (Weight T) (FILE T) (round_w1 T g 0) (round_w2 T g 0),
        TestEquality (Weight T) (FILE T) (round_w1 T g 0) (round_w2 T g 0) (round_w3 T g 0),
        TestIO (Weight T) (FILE T) (round_w1 T g 0),
        TestCopy (Weight T) (FILE T) (round_w1 T g 0)] cerr, generator_after T g 3)"
proof -
  have g1: "snd (weight_generator T g) = generator_after T g 1"
    and g2: "generator_after T g 2 = snd (weight_generator T (generator_after T g 1))"
    and g3: "generator_after T g 3 = snd (weight_generator T (generator_after T g 2))"
    by (simp_all add: eval_nat_numeral)
  have r: "round_w1 T g 0 = Copy (Weight T) (drawn T g 0)"
    "round_w2 T g 0 = Copy (Weight T) (drawn T g 1)"
    "round_w3 T g 0 = Copy (Weight T) (drawn T g 2)"
    by (simp_all add: round_w1_def round_w2_def round_w3_def numeral_2_eq_2)
  show ?thesis
    unfolding Test_body_def r drawn_def case_prod_beta g3 g2 g1[symmetric]
    by simp
qed

lemma Test_body_generator: "snd (Test_body T td g cerr) = generator_after T g 3"
  by (simp only: Test_body_eq snd_conv)

lemma fatal_exits_Test_body: "fatal_exits (FILE T) (\<lambda>cerr. fst (Test_body T td g cerr))"
  unfolding Test_body_eq fst_conv
  by (rule fatal_exits_block)
    (auto intro: fatal_intros fatal_exits_TestSemiring fatal_exits_TestDivision
       fatal_exits_TestReverse fatal_exits_TestEquality fatal_exits_TestIO fatal_exits_TestCopy)

text \<open>What a round that returns has checked.\<close>

lemma Test_body_Return:
  assumes "fst (Test_body T td g cerr) = (Return u, c')"
  shows "\<exists>a b. TestSemiring (weight_bits T) (Weight T) (FILE T)
                  (round_w1 T g 0) (round_w2 T g 0) (round_w3 T g 0) a = (Return (), b)"
    and "td \<Longrightarrow> \<exists>a b. TestDivision (weight_bits T) (Weight T) (FILE T)
                  (round_w1 T g 0) (round_w2 T g 0) a = (Return (), b)"
    and "\<exists>a b. TestIO (Weight T) (FILE T) (round_w1 T g 0) a = (Return (), b)"
  using assms
  unfolding Test_body_eq fst_conv block_Cons_Return if_then_def
  by (auto split: if_splits)

lemma round_after:
  "round_w1 T (generator_after T g (3 * k)) 0 = round_w1 T g k"
  "round_w2 T (generator_after T g (3 * k)) 0 = round_w2 T g k"
  "round_w3 T (generator_after T g (3 * k)) 0 = round_w3 T g k"
  by (simp_all add: round_w1_def round_w2_def round_w3_def drawn_after)

lemma Test_for_round:
  "Test_for T td n i g cerr = ((Return u, c'), g') \<Longrightarrow> i \<le> j \<Longrightarrow> j < n \<Longrightarrow>
     \<exists>c c2. fst (Test_body T td (generator_after T g (3 * nat (j - i))) c) = (Return (), c2)"
proof (induction T td n i g cerr rule: Test_for.induct)
  case (1 T td n i g cerr)
  from "1.prems" have lt: "i < n" by simp
  obtain r c1 g1 where body: "Test_body T td g cerr = ((r, c1), g1)"
    by (metis prod.exhaust)
  have g1: "g1 = generator_after T g 3"
    using Test_body_generator[of T td g cerr] body by simp
  have run: "(case r of Return _ \<Rightarrow> Test_for T td n (i + 1) g1 c1
              | Exit c \<Rightarrow> ((Exit c, c1), g1)) = ((Return u, c'), g')"
    using "1.prems"(1) lt body by (subst (asm) Test_for.simps) simp
  then have r: "r = Return ()" and rest: "Test_for T td n (i + 1) g1 c1 = ((Return u, c'), g')"
    by (cases r; simp)+
  show ?case
  proof (cases "j = i")
    case True
    have "fst (Test_body T td (generator_after T g (3 * nat (j - i))) cerr) = (Return (), c1)"
      using body r True by simp
    then show ?thesis by blast
  next
    case False
    with "1.prems" have le: "i + 1 \<le> j" by simp
    have eq: "3 + 3 * nat (j - (i + 1)) = 3 * nat (j - i)"
      using le by (simp add: nat_diff_distrib)
    from "1.IH"[OF lt body[unfolded r, symmetric] refl refl rest le "1.prems"(3)]
    show ?thesis
      by (simp add: g1 generator_after_add eq)
  qed
qed

lemma Test_for_exit:
  "Test_for T td n i g cerr = ((Exit c, cerr'), g') \<Longrightarrow>
     c = 1 \<and> (\<exists>pre expr line.
       cerr' = pre @ ''FATAL: '' @ check_failed_text expr (FILE T) line @ [newline])"
proof (induction T td n i g cerr rule: Test_for.induct)
  case (1 T td n i g cerr)
  from "1.prems" have lt: "i < n"
    by (subst (asm) Test_for.simps) (simp split: if_splits)
  obtain r c1 g1 where body: "Test_body T td g cerr = ((r, c1), g1)"
    by (metis prod.exhaust)
  have run: "(case r of Return _ \<Rightarrow> Test_for T td n (i + 1) g1 c1
              | Exit d \<Rightarrow> ((Exit d, c1), g1)) = ((Exit c, cerr'), g')"
    using "1.prems"(1) lt body by (subst (asm) Test_for.simps) simp
  show ?case
  proof (cases r)
    case (Return u)
    with run have "Test_for T td n (i + 1) g1 c1 = ((Exit c, cerr'), g')" by simp
    from "1.IH"[OF lt body[unfolded Return, symmetric] refl refl this] show ?thesis .
  next
    case (Exit d)
    with run body have "fst (Test_body T td g cerr) = (Exit c, cerr')" by simp
    with fatal_exits_Test_body[of T td g] show ?thesis
      unfolding fatal_exits_def by blast
  qed
qed

text \<open>Round \<open>k\<close> of a run that returns: what it has checked on its weights.\<close>

lemma Test_Return_round:
  assumes "Test T n td g cerr = ((Return u, c'), g')" and "int k < n"
  shows "\<exists>a b. TestSemiring (weight_bits T) (Weight T) (FILE T)
                  (round_w1 T g k) (round_w2 T g k) (round_w3 T g k) a = (Return (), b)"
    and "td \<Longrightarrow> \<exists>a b. TestDivision (weight_bits T) (Weight T) (FILE T)
                  (round_w1 T g k) (round_w2 T g k) a = (Return (), b)"
    and "\<exists>a b. TestIO (Weight T) (FILE T) (round_w1 T g k) a = (Return (), b)"
proof -
  from assms obtain c c2 where
    "fst (Test_body T td (generator_after T g (3 * k)) c) = (Return (), c2)"
    using Test_for_round[of T td n 0 g cerr u c' g' "int k"] by (auto simp: Test_def)
  from Test_body_Return[OF this]
  show "\<exists>a b. TestSemiring (weight_bits T) (Weight T) (FILE T)
                  (round_w1 T g k) (round_w2 T g k) (round_w3 T g k) a = (Return (), b)"
    and "td \<Longrightarrow> \<exists>a b. TestDivision (weight_bits T) (Weight T) (FILE T)
                  (round_w1 T g k) (round_w2 T g k) a = (Return (), b)"
    and "\<exists>a b. TestIO (Weight T) (FILE T) (round_w1 T g k) a = (Return (), b)"
    by (simp_all only: round_after)
qed

section \<open>Running the examples\<close>

lemma level_Power_1: "level_Power a 1 = level_Times (Some 2) a"
  by simp

lemma level_Power_3: "level_Power a 3 = level_Times (level_Times (level_Times (Some 2) a) a) a"
  by (simp add: eval_nat_numeral)

lemma tagged_Power_1: "tagged_Power a 1 = tagged_Times a (Some (2, 0))"
  by simp

lemma tagged_Power_3:
  "tagged_Power a 3 = tagged_Times a (tagged_Times a (tagged_Times a (Some (2, 0))))"
  by (simp add: eval_nat_numeral)

lemmas harness_defs = Test_def Test_for.simps Test_body_def
  TestSemiring_def TestDivision_def TestReverse_def TestEquality_def TestIO_def TestCopy_def
  FST_CHECK_def FstCheck_def VFST_LOG_def if_then_def truth_def Let_def

lemma level_Read_Write: "level_Read v (level_Write a) = a"
  by (cases a) (simp_all add: level_Write_def level_Read_def)

lemma level_Read_lossy:
  "level_Read v (lossy_Write a) = (if a = Some 1 then Some 0 else a)"
  by (simp add: lossy_Write_def level_Read_Write)

lemma tagged_Read_Write: "tagged_Read v (tagged_Write x) = x"
  by (cases x) (auto simp: tagged_Write_def tagged_Read_def)

lemma tagged_Read_Print:
  "tagged_Read v (tagged_Print x) = (case x of None \<Rightarrow> None | Some (a, s) \<Rightarrow> Some (a, 0))"
  by (cases x) (auto simp: tagged_Print_def tagged_Read_def)

lemmas level_defs = level_tester_def tester_def level_weight_def openfst_bits_def
  level_Plus_def level_Times_def level_Member_def level_Divide_def level_Read_Write
  level_Power_1 level_Power_3

lemmas tagged_defs = tester_def tagged_weight_def openfst_bits_def
  tagged_Plus_def tagged_Times_def mix_def tagged_Member_def tagged_ApproxEqual_def
  tagged_Read_Write tagged_Read_Print tagged_Power_1 tagged_Power_3

lemma drawn_0: "drawn T g 0 = fst (weight_generator T g)"
  by (simp add: drawn_def)

lemma drawn_Suc: "drawn T g (Suc n) = drawn T (snd (weight_generator T g)) n"
proof -
  have "generator_after T g (Suc n) = generator_after T (snd (weight_generator T g)) n"
    using generator_after_add[of T g 1 n] by simp
  then show ?thesis by (simp add: drawn_def del: generator_after.simps)
qed

lemma drawn_numeral:
  "drawn T g (numeral v) = drawn T (snd (weight_generator T g)) (pred_numeral v)"
  by (simp add: numeral_eq_Suc drawn_Suc)

lemmas drawn_simps = round_w1_def round_w2_def round_w3_def drawn_0 drawn_Suc drawn_numeral

lemma level_run:
  "Test (level_tester 31 level_Divide) 2 True [Some 1, Some 2, Some 0, Some 2] [] =
     ((Return (), []), [Some 0, Some 2, Some 1, Some 2])"
  by (simp add: harness_defs level_defs)

section \<open>The driver\<close>

text \<open>
  Claim C1. When the argument vector left by the flags has at most two positional
  arguments and the input graph is read, the driver calls \<^verbatim>\<open>TopSort\<close> once, on the graph
  read; if the verdict is cyclic it writes the warning
  \<^verbatim>\<open>WARNING: <argv[0]>: Input FST is cyclic\<close> to standard error and nothing otherwise; it
  then writes the graph \<^verbatim>\<open>TopSort\<close> left, and returns 0 when the write succeeds and 1 when
  it fails, whatever the verdict was. The calls it makes are exactly the four listed.
\<close>

theorem fsttopsort_main_sorts_once_then_writes:
  assumes "argv0 = prog0 # rest0"
    and "SET_FLAGS api (usage_text prog0) argv0 = prog # rest"
    and "length rest \<le> 2"
    and "ReadFst api (in_name (prog # rest)) = Some f"
    and "TopSort api f = (ac, f')"
  shows "fsttopsort_main api argv0 s =
           Some (Return (if WriteFst api f' (out_name (prog # rest)) then 0 else 1),
                 s\<lparr>std_cerr := std_cerr s @
                      (if ac then []
                       else ''WARNING: '' @ prog @ '': Input FST is cyclic'' @ [newline]),
                    calls := calls s @
                      [CallSetFlags (usage_text prog0) argv0,
                       CallRead (in_name (prog # rest)),
                       CallTopSort f,
                       CallWrite f' (out_name (prog # rest))]\<rparr>)"
  using assms
  by (simp add: fsttopsort_main_def Let_def called_def logging_def FST_LOG_def LogMessage_eq)

theorem fsttopsort_main_sorts_once_then_writes_witness:
  "SET_FLAGS example_api (usage_text ''fsttopsort'') [''fsttopsort'', ''cyclic.fst'', ''out.fst'']
     = [''fsttopsort'', ''cyclic.fst'', ''out.fst''] \<and>
   ReadFst example_api ''cyclic.fst'' = Some False \<and>
   TopSort example_api False = (False, False) \<and>
   fsttopsort_main example_api [''fsttopsort'', ''cyclic.fst'', ''out.fst'']
       \<lparr>std_cerr = [], calls = []\<rparr> =
     Some (Return 0,
           \<lparr>std_cerr = ''WARNING: fsttopsort: Input FST is cyclic'' @ [newline],
            calls = [CallSetFlags (usage_text ''fsttopsort'')
                       [''fsttopsort'', ''cyclic.fst'', ''out.fst''],
                     CallRead ''cyclic.fst'', CallTopSort False,
                     CallWrite False ''out.fst'']\<rparr>)"
proof -
  have flags: "SET_FLAGS example_api (usage_text ''fsttopsort'')
                 [''fsttopsort'', ''cyclic.fst'', ''out.fst'']
               = ''fsttopsort'' # [''cyclic.fst'', ''out.fst'']"
    by (simp add: example_api_def)
  have len: "length [''cyclic.fst'', ''out.fst''] \<le> 2" by simp
  have rd: "ReadFst example_api (in_name (''fsttopsort'' # [''cyclic.fst'', ''out.fst'']))
            = Some False"
    by (simp add: example_api_def in_name_def)
  have ts: "TopSort example_api False = (False, False)"
    by (simp add: example_api_def)
  show ?thesis
    using fsttopsort_main_sorts_once_then_writes [OF refl flags len rd ts,
        of "\<lparr>std_cerr = [], calls = []\<rparr>"]
    by (simp add: example_api_def in_name_def out_name_def)
qed

text \<open>
  Claim C8. When more than two positional arguments are left after the flags are parsed
  (\<^verbatim>\<open>argc > 3\<close>), the driver calls \<^verbatim>\<open>ShowUsage\<close>, which prints the usage message, and
  returns 1; it makes no other call, so no input is read.
\<close>

theorem fsttopsort_main_usage_error:
  assumes "argv0 = prog0 # rest0"
    and "length (SET_FLAGS api (usage_text prog0) argv0) > 3"
  shows "fsttopsort_main api argv0 s =
           Some (Return 1,
                 s\<lparr>calls := calls s @ [CallSetFlags (usage_text prog0) argv0, CallShowUsage]\<rparr>)"
  using assms
  by (simp add: fsttopsort_main_def Let_def called_def)

theorem fsttopsort_main_usage_error_witness:
  "length (SET_FLAGS example_api (usage_text ''fsttopsort'')
            [''fsttopsort'', ''dag.fst'', ''out.fst'', ''extra'']) > 3 \<and>
   fsttopsort_main example_api [''fsttopsort'', ''dag.fst'', ''out.fst'', ''extra'']
       \<lparr>std_cerr = [], calls = []\<rparr> =
     Some (Return 1,
           \<lparr>std_cerr = [],
            calls = [CallSetFlags (usage_text ''fsttopsort'')
                       [''fsttopsort'', ''dag.fst'', ''out.fst'', ''extra''],
                     CallShowUsage]\<rparr>)"
proof -
  have len: "length (SET_FLAGS example_api (usage_text ''fsttopsort'')
               [''fsttopsort'', ''dag.fst'', ''out.fst'', ''extra'']) > 3"
    by (simp add: example_api_def)
  show ?thesis
    using len fsttopsort_main_usage_error [OF refl len, of "\<lparr>std_cerr = [], calls = []\<rparr>"]
    by simp
qed

text \<open>
  Claim C9. When at most two positional arguments are left and the read gives no graph,
  the driver returns 1 right after the read: it calls neither \<^verbatim>\<open>TopSort\<close> nor
  \<^verbatim>\<open>Write\<close>.
\<close>

theorem fsttopsort_main_read_failure:
  assumes "argv0 = prog0 # rest0"
    and "SET_FLAGS api (usage_text prog0) argv0 = argv"
    and "length argv \<le> 3"
    and "ReadFst api (in_name argv) = None"
  shows "fsttopsort_main api argv0 s =
           Some (Return 1,
                 s\<lparr>calls := calls s @
                      [CallSetFlags (usage_text prog0) argv0, CallRead (in_name argv)]\<rparr>)"
  using assms
  by (simp add: fsttopsort_main_def Let_def called_def)

theorem fsttopsort_main_read_failure_witness:
  "length [''fsttopsort'', ''broken.fst''] \<le> 3 \<and>
   ReadFst example_api ''broken.fst'' = None \<and>
   fsttopsort_main example_api [''fsttopsort'', ''broken.fst'']
       \<lparr>std_cerr = [], calls = []\<rparr> =
     Some (Return 1,
           \<lparr>std_cerr = [],
            calls = [CallSetFlags (usage_text ''fsttopsort'') [''fsttopsort'', ''broken.fst''],
                     CallRead ''broken.fst'']\<rparr>)"
proof -
  have flags: "SET_FLAGS example_api (usage_text ''fsttopsort'') [''fsttopsort'', ''broken.fst'']
               = [''fsttopsort'', ''broken.fst'']"
    by (simp add: example_api_def)
  have len: "length [''fsttopsort'', ''broken.fst''] \<le> 3" by simp
  have rd: "ReadFst example_api (in_name [''fsttopsort'', ''broken.fst'']) = None"
    by (simp add: example_api_def in_name_def)
  show ?thesis
    using fsttopsort_main_read_failure [OF refl flags len rd, of "\<lparr>std_cerr = [], calls = []\<rparr>"]
    by (simp add: example_api_def in_name_def)
qed

section \<open>Failed checks\<close>

text \<open>
  Claim C2. A check whose condition is false writes, after what standard error already
  holds, the line \<^verbatim>\<open>FATAL: Check failed: "<expr>" file: <file> line: <line>\<close> and exits
  with code 1; the statements after it are not run. Every check of the harness is such a
  check: whenever a run of \<^verbatim>\<open>Test\<close> does not return, the process has exited with code 1
  and the last line on standard error is the fatal message of a check of the harness's file.
\<close>

theorem violated_check_is_fatal:
  "FstCheck False expr file line cerr =
     (Exit 1, cerr @ ''FATAL: Check failed: '' @ [dquote] @ expr @ [dquote] @
              '' file: '' @ file @ '' line: '' @ show_int line @ [newline]) \<and>
   (\<not> x \<longrightarrow>
      block (FST_CHECK file line expr x # ps) cerr =
        (Exit 1, cerr @ ''FATAL: '' @ check_failed_text expr file line @ [newline])) \<and>
   (Test T n td g cerr = ((Exit c, cerr'), g') \<longrightarrow>
      c = 1 \<and> (\<exists>pre expr line.
        cerr' = pre @ ''FATAL: '' @ check_failed_text expr (FILE T) line @ [newline]))"
proof (intro conjI impI)
  show "FstCheck False expr file line cerr =
     (Exit 1, cerr @ ''FATAL: Check failed: '' @ [dquote] @ expr @ [dquote] @
              '' file: '' @ file @ '' line: '' @ show_int line @ [newline])"
    by (simp add: FstCheck_def FST_LOG_def LogMessage_eq check_failed_text_def)
next
  assume "\<not> x"
  then show "block (FST_CHECK file line expr x # ps) cerr =
        (Exit 1, cerr @ ''FATAL: '' @ check_failed_text expr file line @ [newline])"
    by (simp add: FST_CHECK_eq)
next
  assume run: "Test T n td g cerr = ((Exit c, cerr'), g')"
  then show "c = 1"
    unfolding Test_def by (rule Test_for_exit [THEN conjunct1])
  from run show "\<exists>pre expr line.
        cerr' = pre @ ''FATAL: '' @ check_failed_text expr (FILE T) line @ [newline]"
    unfolding Test_def by (rule Test_for_exit [THEN conjunct2])
qed

lemma show_110: "show_int 110 = ''110''"
  by (simp add: show_int_def show_nat.simps)

lemma level_run_no_semiring:
  "Test (level_tester 0 level_Divide) 1 True [Some 1, Some 2, Some 0] [] =
     ((Exit 1,
       ''FATAL: Check failed: '' @ [dquote] @
       ''Weight::Properties() & (kLeftSemiring | kRightSemiring)'' @ [dquote] @
       '' file: weight-tester.h line: 110'' @ [newline]),
      [Some 1, Some 2, Some 0])"
  by (simp add: harness_defs level_defs FST_LOG_def LogMessage_eq check_failed_text_def show_110)

theorem violated_check_is_fatal_witness:
  "\<not> False \<and>
   block [FST_CHECK ''weight-tester.h'' 110 ''false'' False, FST_CHECK ''weight-tester.h'' 114 ''true'' True] [] =
     (Exit 1, ''FATAL: Check failed: '' @ [dquote] @ ''false'' @ [dquote] @
              '' file: weight-tester.h line: 110'' @ [newline]) \<and>
   Test (level_tester 0 level_Divide) 1 True [Some 1, Some 2, Some 0] [] =
     ((Exit 1,
       ''FATAL: Check failed: '' @ [dquote] @
       ''Weight::Properties() & (kLeftSemiring | kRightSemiring)'' @ [dquote] @
       '' file: weight-tester.h line: 110'' @ [newline]),
      [Some 1, Some 2, Some 0]) \<and>
   (\<exists>pre expr line.
      ''FATAL: Check failed: '' @ [dquote] @
      ''Weight::Properties() & (kLeftSemiring | kRightSemiring)'' @ [dquote] @
      '' file: weight-tester.h line: 110'' @ [newline] =
      pre @ ''FATAL: '' @ check_failed_text expr (FILE (level_tester 0 level_Divide)) line @
      [newline])"
  using violated_check_is_fatal [of "''false''" "''weight-tester.h''" 110 "[]" False
      "[FST_CHECK ''weight-tester.h'' 114 ''true'' True]" "level_tester 0 level_Divide" 1 True
      "[Some 1, Some 2, Some 0]" 1
      "''FATAL: Check failed: '' @ [dquote] @
       ''Weight::Properties() & (kLeftSemiring | kRightSemiring)'' @ [dquote] @
       '' file: weight-tester.h line: 110'' @ [newline]"
      "[Some 1, Some 2, Some 0]"]
    level_run_no_semiring
  by (simp add: check_failed_text_def show_110)


section \<open>What the test functions check\<close>

lemma TestSemiring_Return:
  assumes "TestSemiring K W file w1 w2 w3 cerr = (Return u, c')"
  shows "Member W (Plus_w W w1 w2)"
    and "Member W (Times_w W w1 w2)"
    and "ApproxEqual W (Plus_w W w1 (Plus_w W w2 w3)) (Plus_w W (Plus_w W w1 w2) w3)"
    and "ApproxEqual W (Times_w W w1 (Times_w W w2 w3)) (Times_w W (Times_w W w1 w2) w3)"
    and "equal_w W (Plus_w W w1 (Zero W)) w1"
    and "equal_w W (Plus_w W (Zero W) w1) w1"
    and "equal_w W (Times_w W w1 (One_w W)) w1"
    and "equal_w W (Times_w W (One_w W) w1) w1"
    and "\<not> Member W (NoWeight W)"
    and "\<not> Member W (Plus_w W w1 (NoWeight W))"
    and "\<not> Member W (Plus_w W (NoWeight W) w1)"
    and "\<not> Member W (Times_w W w1 (NoWeight W))"
    and "\<not> Member W (Times_w W (NoWeight W) w1)"
    and "ApproxEqual W (Plus_w W w1 w2) (Plus_w W w2 w1)"
    and "truth (Properties W AND kCommutative K) \<Longrightarrow>
           ApproxEqual W (Times_w W w1 w2) (Times_w W w2 w1)"
    and "equal_w W (Times_w W w1 (Zero W)) (Zero W)"
    and "equal_w W (Times_w W (Zero W) w1) (Zero W)"
    and "equal_w W (Power W w1 0) (One_w W)"
    and "equal_w W (Power W w1 1) w1"
    and "equal_w W (Power W w1 3) (Times_w W w1 (Times_w W w1 w1))"
    and "truth (Properties W AND kLeftSemiring K) \<Longrightarrow>
           ApproxEqual W (Times_w W w1 (Plus_w W w2 w3))
             (Plus_w W (Times_w W w1 w2) (Times_w W w1 w3))"
    and "truth (Properties W AND kRightSemiring K) \<Longrightarrow>
           ApproxEqual W (Times_w W (Plus_w W w1 w2) w3)
             (Plus_w W (Times_w W w1 w3) (Times_w W w2 w3))"
    and "truth (Properties W AND kIdempotent K) \<Longrightarrow> equal_w W (Plus_w W w1 w1) w1"
    and "truth (Properties W AND kPath K) \<Longrightarrow>
           equal_w W (Plus_w W w1 w2) w1 \<or> equal_w W (Plus_w W w1 w2) w2"
    and "truth (Properties W AND (kLeftSemiring K OR kRightSemiring K))"
    and "truth (Properties W AND kCommutative K) \<Longrightarrow> truth (Properties W AND kSemiring K)"
  using assms by (simp_all add: TestSemiring_def returns del: block.simps)

lemma TestDivision_Return:
  assumes "TestDivision K W file w1 w2 cerr = (Return u, c')"
  shows "truth (Properties W AND kLeftSemiring K) \<Longrightarrow>
           \<not> Member W (Divide W w1 (NoWeight W) DIVIDE_LEFT) \<and>
           \<not> Member W (Divide W (NoWeight W) w1 DIVIDE_LEFT)"
    and "truth (Properties W AND kRightSemiring K) \<Longrightarrow>
           \<not> Member W (Divide W w1 (NoWeight W) DIVIDE_RIGHT) \<and>
           \<not> Member W (Divide W (NoWeight W) w1 DIVIDE_RIGHT)"
    and "truth (Properties W AND kCommutative K) \<Longrightarrow>
           Member W (Divide W (Times_w W w1 w2) w1 DIVIDE_RIGHT) \<Longrightarrow>
           ApproxEqual W (Times_w W w1 w2)
             (Times_w W (Divide W (Times_w W w1 w2) w1 DIVIDE_RIGHT) w1)"
  using assms by (simp_all add: TestDivision_def Let_def returns del: block.simps)

lemma TestIO_Return:
  assumes "TestIO W file w cerr = (Return u, c')"
  shows "equal_w W w (Read W (Default W) (Write W w))"
    and "ApproxEqual W w (Scan W (One_w W) (Print W w))"
  using assms by (simp_all add: TestIO_def Let_def returns del: block.simps)

section \<open>More runs of the examples\<close>

lemma show_64: "show_int 64 = ''64''"
  by (simp add: show_int_def show_nat.simps)

lemma tagged_run:
  "Test tagged_tester 1 True tagged_draws [] = ((Return (), []), tagged_draws)"
  by (simp add: tagged_tester_def tagged_draws_def harness_defs tagged_defs)

lemma tagged_round:
  "round_w1 tagged_tester tagged_draws 0 = Some (1, 1)"
  "round_w2 tagged_tester tagged_draws 0 = Some (2, 2)"
  "round_w3 tagged_tester tagged_draws 0 = Some (1, 3)"
  by (simp_all add: tagged_tester_def tagged_draws_def drawn_simps tester_def tagged_weight_def)

lemma sloppy_run:
  "Test sloppy_tester 1 True tagged_draws [] =
     ((Exit 1,
       ''FATAL: Check failed: '' @ [dquote] @ ''Plus(w1, Weight::Zero()) == w1'' @ [dquote] @
       '' file: weight-tester.h line: 64'' @ [newline]),
      tagged_draws)"
  by (simp add: sloppy_tester_def tagged_draws_def harness_defs tagged_defs FST_LOG_def
      LogMessage_eq check_failed_text_def show_64)

lemma flattening_run:
  "Test (tester flattening_weight) 1 True [Some 3, Some 1, Some 0] [] =
     ((Return (), []), [Some 3, Some 1, Some 0])"
  by (simp add: flattening_weight_def harness_defs level_defs)

lemma lossy_run:
  "Test (tester lossy_weight) 1 True [Some 2, Some 1, Some 1] [] =
     ((Return (), []), [Some 2, Some 1, Some 1])"
  by (simp add: lossy_weight_def harness_defs level_defs level_Read_lossy)

lemma lenient_run:
  "Test (tester lenient_weight) 1 True [Some 1, Some 2, Some 2] [] =
     ((Return (), []), [Some 1, Some 2, Some 2])"
  by (simp add: lenient_weight_def lenient_Plus_def harness_defs level_defs)

section \<open>The laws the harness asserts\<close>

text \<open>
  In the theorems below a run of \<^verbatim>\<open>Test\<close> that returns has passed every check, \<open>k\<close> is
  one of its rounds, and \<open>w1\<close>, \<open>w2\<close>, \<open>w3\<close> are the weights the test functions of
  the round work on: the copies of the three weights the round drew, in this order. Where
  the copy constructor keeps the value they are the drawn weights themselves. A law is
  asserted by the harness when every run that returns has it; by the theorem on failed
  checks, a run where it fails exits with code 1.
\<close>

text \<open>
  Claim C6. In every round the harness asserts, with \<^verbatim>\<open>operator==\<close>, that
  \<^verbatim>\<open>Power(w1, 0)\<close> is \<^verbatim>\<open>One()\<close>, that \<^verbatim>\<open>Power(w1, 1)\<close> is \<^verbatim>\<open>w1\<close> and that
  \<^verbatim>\<open>Power(w1, 3)\<close> is \<^verbatim>\<open>Times(w1, Times(w1, w1))\<close>, where \<^verbatim>\<open>w1\<close> is the first weight
  of the round as \<^verbatim>\<open>TestSemiring\<close> receives it.
\<close>

theorem power_checks:
  fixes T :: "('w, 'r, 'g) WeightTester" and g :: 'g and k :: nat
  defines "W \<equiv> Weight T"
  defines "w1 \<equiv> round_w1 T g k"
  assumes "Test T n td g cerr = ((Return u, c'), g')" and "int k < n"
  shows "equal_w W (Power W w1 0) (One_w W) \<and>
         equal_w W (Power W w1 1) w1 \<and>
         equal_w W (Power W w1 3) (Times_w W w1 (Times_w W w1 w1))"
proof -
  from Test_Return_round(1) [OF assms(3,4)] obtain a b where
    "TestSemiring (weight_bits T) W (FILE T) w1 (round_w2 T g k) (round_w3 T g k) a =
       (Return (), b)"
    unfolding W_def w1_def by blast
  from TestSemiring_Return(18-20) [OF this] show ?thesis by simp
qed

theorem power_checks_witness:
  "Test (level_tester 31 level_Divide) 2 True [Some 1, Some 2, Some 0, Some 2] [] =
     ((Return (), []), [Some 0, Some 2, Some 1, Some 2]) \<and>
   int 1 < 2 \<and>
   round_w1 (level_tester 31 level_Divide) [Some 1, Some 2, Some 0, Some 2] 1 = Some 2 \<and>
   level_Power (Some 2) 0 = Some 2 \<and>
   level_Power (Some 2) 1 = Some 2 \<and>
   level_Power (Some 2) 3 = level_Times (Some 2) (level_Times (Some 2) (Some 2)) \<and>
   Test (tester flattening_weight) 1 True [Some 3, Some 1, Some 0] [] =
     ((Return (), []), [Some 3, Some 1, Some 0]) \<and>
   int 0 < 1 \<and>
   drawn (tester flattening_weight) [Some 3, Some 1, Some 0] 0 = Some 3 \<and>
   round_w1 (tester flattening_weight) [Some 3, Some 1, Some 0] 0 = Some 0 \<and>
   level_Power (Some 0) 1 = Some 0"
  using power_checks [OF level_run, of 1] level_run
    power_checks [OF flattening_run, of 0] flattening_run
  by (simp add: drawn_simps level_tester_def tester_def level_weight_def flattening_weight_def)


text \<open>
  Claim C5, as stated, fails for the second and third weight of a round: \<^verbatim>\<open>TestIO\<close> is
  run on the first weight only. On the level class that writes and prints level 1 as
  level 0, a run whose second and third draw are level 1 returns, although that weight
  fails both round trips.
\<close>

theorem unchecked_sample_fails_round_trips:
  "Test (tester lossy_weight) 1 True [Some 2, Some 1, Some 1] [] =
     ((Return (), []), [Some 2, Some 1, Some 1]) \<and>
   drawn (tester lossy_weight) [Some 2, Some 1, Some 1] 1 = Some 1 \<and>
   drawn (tester lossy_weight) [Some 2, Some 1, Some 1] 2 = Some 1 \<and>
   \<not> equal_w lossy_weight (Some 1)
       (Read lossy_weight (Default lossy_weight) (Write lossy_weight (Some 1))) \<and>
   \<not> ApproxEqual lossy_weight (Some 1)
       (Scan lossy_weight (One_w lossy_weight) (Print lossy_weight (Some 1)))"
proof -
  have rest: "drawn (tester lossy_weight) [Some 2, Some 1, Some 1] 1 = Some 1 \<and>
   drawn (tester lossy_weight) [Some 2, Some 1, Some 1] 2 = Some 1 \<and>
   \<not> equal_w lossy_weight (Some 1)
       (Read lossy_weight (Default lossy_weight) (Write lossy_weight (Some 1))) \<and>
   \<not> ApproxEqual lossy_weight (Some 1)
       (Scan lossy_weight (One_w lossy_weight) (Print lossy_weight (Some 1)))"
    by (simp add: drawn_simps tester_def lossy_weight_def level_weight_def level_Read_lossy)
  from lossy_run rest show ?thesis by (rule conjI)
qed

text \<open>
  Claim C5, amended. In every round the harness asserts for the weight \<^verbatim>\<open>w\<close> that
  \<^verbatim>\<open>TestIO\<close> receives, which is the first weight of the round, that \<^verbatim>\<open>w\<close> written in
  binary and read back into a default-constructed weight is equal to \<^verbatim>\<open>w\<close> under
  \<^verbatim>\<open>operator==\<close>, and that \<^verbatim>\<open>w\<close> printed as text and scanned back into a weight that
  was \<^verbatim>\<open>One()\<close> is \<^verbatim>\<open>ApproxEqual\<close> to \<^verbatim>\<open>w\<close>. The text round trip is not held to
  \<^verbatim>\<open>operator==\<close>: the run on the tagged class returns, and there the first weight comes
  back from text with another tag.
\<close>

theorem io_round_trips:
  fixes T :: "('w, 'r, 'g) WeightTester" and g :: 'g and k :: nat
  defines "W \<equiv> Weight T"
  defines "w \<equiv> round_w1 T g k"
  assumes "Test T n td g cerr = ((Return u, c'), g')" and "int k < n"
  shows "equal_w W w (Read W (Default W) (Write W w)) \<and>
         ApproxEqual W w (Scan W (One_w W) (Print W w)) \<and>
         (Test tagged_tester 1 True tagged_draws [] = ((Return (), []), tagged_draws) \<and>
          round_w1 tagged_tester tagged_draws 0 = Some (1, 1) \<and>
          \<not> equal_w (Weight tagged_tester) (Some (1, 1))
              (Scan (Weight tagged_tester) (One_w (Weight tagged_tester))
                 (Print (Weight tagged_tester) (Some (1, 1)))))"
proof -
  from Test_Return_round(3) [OF assms(3,4)] obtain a b where
    "TestIO W (FILE T) w a = (Return (), b)"
    unfolding W_def w_def by blast
  note io = TestIO_Return [OF this]
  have text_only_approx:
    "\<not> equal_w (Weight tagged_tester) (Some (1, 1))
        (Scan (Weight tagged_tester) (One_w (Weight tagged_tester))
           (Print (Weight tagged_tester) (Some (1, 1))))"
    by (simp add: tagged_tester_def tester_def tagged_weight_def tagged_Read_Print)
  from io tagged_run tagged_round(1) text_only_approx show ?thesis by blast
qed

theorem io_round_trips_witness:
  "Test tagged_tester 1 True tagged_draws [] = ((Return (), []), tagged_draws) \<and>
   int 0 < 1 \<and>
   round_w1 tagged_tester tagged_draws 0 = Some (1, 1) \<and>
   Some (1, 1) = tagged_Read (Some (0, 0)) (tagged_Write (Some (1, 1))) \<and>
   tagged_ApproxEqual (Some (1, 1)) (tagged_Read (Some (2, 0)) (tagged_Print (Some (1, 1)))) \<and>
   Some (1, 1) \<noteq> tagged_Read (Some (2, 0)) (tagged_Print (Some (1, 1)))"
  using io_round_trips [OF tagged_run, of 0] tagged_run
  by (simp only: tagged_round)
    (simp add: tagged_tester_def tester_def tagged_weight_def tagged_Read_Write
       tagged_Read_Print tagged_ApproxEqual_def)

lemma truth_or: "truth (p AND (a OR b)) = (truth (p AND a) \<or> truth (p AND b))"
  by (simp add: truth_def bit.conj_disj_distrib or_eq_0_iff)

text \<open>
  The check on line 110: a run of at least one round that returns is on a weight type that
  declares \<^verbatim>\<open>LeftSemiring\<close> or \<^verbatim>\<open>RightSemiring\<close>.
\<close>

lemma left_or_right_semiring_asserted:
  assumes "Test T n td g cerr = ((Return u, c'), g')" and "0 < n"
  shows "truth (Properties (Weight T) AND kLeftSemiring (weight_bits T)) \<or>
         truth (Properties (Weight T) AND kRightSemiring (weight_bits T))"
proof -
  from assms(2) have "int 0 < n" by simp
  from Test_Return_round(1) [OF assms(1) this] obtain w1 w2 w3 a b where
    "TestSemiring (weight_bits T) (Weight T) (FILE T) w1 w2 w3 a = (Return (), b)"
    by blast
  from TestSemiring_Return(25) [OF this] show ?thesis
    by (simp add: truth_or)
qed

text \<open>
  Claim C7 fails on the code. A weight type that declares \<^verbatim>\<open>Commutative\<close> and
  \<^verbatim>\<open>LeftSemiring\<close> but not \<^verbatim>\<open>RightSemiring\<close> does not declare \<^verbatim>\<open>Semiring\<close>, and yet a
  run on it returns: the check on line 114 tests whether \<^verbatim>\<open>Properties() & kSemiring\<close> is
  non-zero, which one bit of the two satisfies, and which the check on line 110 has
  ensured already. The comment on line 112 says that the check is to ensure that a
  commutative weight type is marked as a semiring.
\<close>

theorem commutative_without_semiring_passes:
  "Test (level_tester 5 level_Divide) 1 True [Some 1, Some 2, Some 0] [] =
     ((Return (), []), [Some 1, Some 2, Some 0]) \<and>
   truth (Properties (Weight (level_tester 5 level_Divide)) AND
          kCommutative (weight_bits (level_tester 5 level_Divide))) \<and>
   truth (Properties (Weight (level_tester 5 level_Divide)) AND
          kSemiring (weight_bits (level_tester 5 level_Divide))) \<and>
   \<not> truth (Properties (Weight (level_tester 5 level_Divide)) AND
            kRightSemiring (weight_bits (level_tester 5 level_Divide))) \<and>
   \<not> declares_Semiring (weight_bits (level_tester 5 level_Divide))
       (Properties (Weight (level_tester 5 level_Divide)))"
proof -
  have run: "Test (level_tester 5 level_Divide) 1 True [Some 1, Some 2, Some 0] [] =
     ((Return (), []), [Some 1, Some 2, Some 0])"
    by (simp add: harness_defs level_defs)
  have rest: "truth (Properties (Weight (level_tester 5 level_Divide)) AND
          kCommutative (weight_bits (level_tester 5 level_Divide))) \<and>
   truth (Properties (Weight (level_tester 5 level_Divide)) AND
          kSemiring (weight_bits (level_tester 5 level_Divide))) \<and>
   \<not> truth (Properties (Weight (level_tester 5 level_Divide)) AND
            kRightSemiring (weight_bits (level_tester 5 level_Divide))) \<and>
   \<not> declares_Semiring (weight_bits (level_tester 5 level_Divide))
       (Properties (Weight (level_tester 5 level_Divide)))"
    by (simp add: level_tester_def tester_def level_weight_def openfst_bits_def truth_def
        declares_Semiring_def)
  from run rest show ?thesis by (rule conjI)
qed

text \<open>
  Claim C10. The harness has two standards of equality. With \<^verbatim>\<open>operator==\<close> it asserts the
  identity laws of \<^verbatim>\<open>Zero\<close> and \<^verbatim>\<open>One\<close>, that \<^verbatim>\<open>Zero\<close> annihilates \<^verbatim>\<open>Times\<close>, the three
  checks of \<^verbatim>\<open>Power\<close>, the idempotence of \<^verbatim>\<open>Plus\<close> and the path property (the last two
  when declared). With \<^verbatim>\<open>ApproxEqual\<close> it asserts associativity, commutativity of
  \<^verbatim>\<open>Plus\<close>, commutativity of \<^verbatim>\<open>Times\<close> when declared, and left and right distributivity
  when declared. These six laws are not held to \<^verbatim>\<open>operator==\<close>: the run on the tagged
  class returns although each of them fails under \<^verbatim>\<open>operator==\<close> on its weights. An
  identity law is: on the tagged class whose \<^verbatim>\<open>Plus\<close> mixes the tags also with \<^verbatim>\<open>Zero\<close>,
  where \<^verbatim>\<open>Plus(w1, Zero())\<close> is \<^verbatim>\<open>ApproxEqual\<close> to \<^verbatim>\<open>w1\<close> but not equal, the run exits
  with code 1.
\<close>

theorem two_equality_standards:
  fixes T :: "('w, 'r, 'g) WeightTester" and g :: 'g and k :: nat
    and a b c :: tagged
  defines "W \<equiv> Weight T"
  defines "P \<equiv> Properties (Weight T)"
  defines "K \<equiv> weight_bits T"
  defines "w1 \<equiv> round_w1 T g k"
  defines "w2 \<equiv> round_w2 T g k"
  defines "w3 \<equiv> round_w3 T g k"
  defines "V \<equiv> Weight tagged_tester"
  defines "S \<equiv> Weight sloppy_tester"
  defines "a \<equiv> round_w1 tagged_tester tagged_draws 0"
  defines "b \<equiv> round_w2 tagged_tester tagged_draws 0"
  defines "c \<equiv> round_w3 tagged_tester tagged_draws 0"
  assumes "Test T n td g cerr = ((Return u, c'), g')" and "int k < n"
  shows "(equal_w W (Plus_w W w1 (Zero W)) w1 \<and>
          equal_w W (Plus_w W (Zero W) w1) w1 \<and>
          equal_w W (Times_w W w1 (One_w W)) w1 \<and>
          equal_w W (Times_w W (One_w W) w1) w1 \<and>
          equal_w W (Times_w W w1 (Zero W)) (Zero W) \<and>
          equal_w W (Times_w W (Zero W) w1) (Zero W) \<and>
          equal_w W (Power W w1 0) (One_w W) \<and>
          equal_w W (Power W w1 1) w1 \<and>
          equal_w W (Power W w1 3) (Times_w W w1 (Times_w W w1 w1)) \<and>
          (truth (P AND kIdempotent K) \<longrightarrow> equal_w W (Plus_w W w1 w1) w1) \<and>
          (truth (P AND kPath K) \<longrightarrow>
             equal_w W (Plus_w W w1 w2) w1 \<or> equal_w W (Plus_w W w1 w2) w2)) \<and>
         (ApproxEqual W (Plus_w W w1 (Plus_w W w2 w3)) (Plus_w W (Plus_w W w1 w2) w3) \<and>
          ApproxEqual W (Times_w W w1 (Times_w W w2 w3)) (Times_w W (Times_w W w1 w2) w3) \<and>
          ApproxEqual W (Plus_w W w1 w2) (Plus_w W w2 w1) \<and>
          (truth (P AND kCommutative K) \<longrightarrow>
             ApproxEqual W (Times_w W w1 w2) (Times_w W w2 w1)) \<and>
          (truth (P AND kLeftSemiring K) \<longrightarrow>
             ApproxEqual W (Times_w W w1 (Plus_w W w2 w3))
               (Plus_w W (Times_w W w1 w2) (Times_w W w1 w3))) \<and>
          (truth (P AND kRightSemiring K) \<longrightarrow>
             ApproxEqual W (Times_w W (Plus_w W w1 w2) w3)
               (Plus_w W (Times_w W w1 w3) (Times_w W w2 w3)))) \<and>
         (Test tagged_tester 1 True tagged_draws [] = ((Return (), []), tagged_draws) \<and>
          truth (Properties V AND kCommutative (weight_bits tagged_tester)) \<and>
          truth (Properties V AND kLeftSemiring (weight_bits tagged_tester)) \<and>
          truth (Properties V AND kRightSemiring (weight_bits tagged_tester)) \<and>
          \<not> equal_w V (Plus_w V a (Plus_w V b c)) (Plus_w V (Plus_w V a b) c) \<and>
          \<not> equal_w V (Times_w V a (Times_w V b c)) (Times_w V (Times_w V a b) c) \<and>
          \<not> equal_w V (Plus_w V a b) (Plus_w V b a) \<and>
          \<not> equal_w V (Times_w V a b) (Times_w V b a) \<and>
          \<not> equal_w V (Times_w V a (Plus_w V b c))
              (Plus_w V (Times_w V a b) (Times_w V a c)) \<and>
          \<not> equal_w V (Times_w V (Plus_w V a b) c)
              (Plus_w V (Times_w V a c) (Times_w V b c))) \<and>
         (fst (fst (Test sloppy_tester 1 True tagged_draws [])) = Exit 1 \<and>
          round_w1 sloppy_tester tagged_draws 0 = a \<and>
          ApproxEqual S (Plus_w S a (Zero S)) a \<and>
          \<not> equal_w S (Plus_w S a (Zero S)) a)"
proof -
  from Test_Return_round(1) [OF assms(12,13)] obtain x y where
    run: "TestSemiring K W (FILE T) w1 w2 w3 x = (Return (), y)"
    unfolding W_def K_def w1_def w2_def w3_def by blast
  note law = TestSemiring_Return [OF run]
  have exact: "equal_w W (Plus_w W w1 (Zero W)) w1 \<and>
          equal_w W (Plus_w W (Zero W) w1) w1 \<and>
          equal_w W (Times_w W w1 (One_w W)) w1 \<and>
          equal_w W (Times_w W (One_w W) w1) w1 \<and>
          equal_w W (Times_w W w1 (Zero W)) (Zero W) \<and>
          equal_w W (Times_w W (Zero W) w1) (Zero W) \<and>
          equal_w W (Power W w1 0) (One_w W) \<and>
          equal_w W (Power W w1 1) w1 \<and>
          equal_w W (Power W w1 3) (Times_w W w1 (Times_w W w1 w1)) \<and>
          (truth (P AND kIdempotent K) \<longrightarrow> equal_w W (Plus_w W w1 w1) w1) \<and>
          (truth (P AND kPath K) \<longrightarrow>
             equal_w W (Plus_w W w1 w2) w1 \<or> equal_w W (Plus_w W w1 w2) w2)"
    using law(5-8) law(16-20) law(23,24) unfolding P_def W_def by blast
  have approx: "ApproxEqual W (Plus_w W w1 (Plus_w W w2 w3)) (Plus_w W (Plus_w W w1 w2) w3) \<and>
          ApproxEqual W (Times_w W w1 (Times_w W w2 w3)) (Times_w W (Times_w W w1 w2) w3) \<and>
          ApproxEqual W (Plus_w W w1 w2) (Plus_w W w2 w1) \<and>
          (truth (P AND kCommutative K) \<longrightarrow>
             ApproxEqual W (Times_w W w1 w2) (Times_w W w2 w1)) \<and>
          (truth (P AND kLeftSemiring K) \<longrightarrow>
             ApproxEqual W (Times_w W w1 (Plus_w W w2 w3))
               (Plus_w W (Times_w W w1 w2) (Times_w W w1 w3))) \<and>
          (truth (P AND kRightSemiring K) \<longrightarrow>
             ApproxEqual W (Times_w W (Plus_w W w1 w2) w3)
               (Plus_w W (Times_w W w1 w3) (Times_w W w2 w3)))"
    using law(3,4) law(14,15) law(21,22) unfolding P_def W_def by blast
  have abc: "a = Some (1, 1)" "b = Some (2, 2)" "c = Some (1, 3)"
    unfolding a_def b_def c_def by (rule tagged_round)+
  have separate:
         "truth (Properties V AND kCommutative (weight_bits tagged_tester)) \<and>
          truth (Properties V AND kLeftSemiring (weight_bits tagged_tester)) \<and>
          truth (Properties V AND kRightSemiring (weight_bits tagged_tester)) \<and>
          \<not> equal_w V (Plus_w V a (Plus_w V b c)) (Plus_w V (Plus_w V a b) c) \<and>
          \<not> equal_w V (Times_w V a (Times_w V b c)) (Times_w V (Times_w V a b) c) \<and>
          \<not> equal_w V (Plus_w V a b) (Plus_w V b a) \<and>
          \<not> equal_w V (Times_w V a b) (Times_w V b a) \<and>
          \<not> equal_w V (Times_w V a (Plus_w V b c))
              (Plus_w V (Times_w V a b) (Times_w V a c)) \<and>
          \<not> equal_w V (Times_w V (Plus_w V a b) c)
              (Plus_w V (Times_w V a c) (Times_w V b c))"
    unfolding abc V_def
    by (simp add: tagged_tester_def tagged_defs truth_def)
  have sloppy: "fst (fst (Test sloppy_tester 1 True tagged_draws [])) = Exit 1 \<and>
          round_w1 sloppy_tester tagged_draws 0 = a \<and>
          ApproxEqual S (Plus_w S a (Zero S)) a \<and>
          \<not> equal_w S (Plus_w S a (Zero S)) a"
  proof -
    have exits: "fst (fst (Test sloppy_tester 1 True tagged_draws [])) = Exit 1"
      by (simp only: sloppy_run fst_conv)
    have rest: "round_w1 sloppy_tester tagged_draws 0 = a \<and>
          ApproxEqual S (Plus_w S a (Zero S)) a \<and>
          \<not> equal_w S (Plus_w S a (Zero S)) a"
      unfolding abc S_def
      by (simp add: sloppy_tester_def tagged_draws_def drawn_simps tagged_defs)
    from exits rest show ?thesis by (rule conjI)
  qed
  from exact approx tagged_run separate sloppy show ?thesis by blast
qed

theorem two_equality_standards_witness:
  "Test (level_tester 31 level_Divide) 2 True [Some 1, Some 2, Some 0, Some 2] [] =
     ((Return (), []), [Some 0, Some 2, Some 1, Some 2]) \<and>
   int 1 < 2 \<and>
   round_w1 (level_tester 31 level_Divide) [Some 1, Some 2, Some 0, Some 2] 1 = Some 2 \<and>
   round_w2 (level_tester 31 level_Divide) [Some 1, Some 2, Some 0, Some 2] 1 = Some 1 \<and>
   round_w3 (level_tester 31 level_Divide) [Some 1, Some 2, Some 0, Some 2] 1 = Some 2 \<and>
   truth (31 AND kIdempotent openfst_bits) \<and>
   truth (31 AND kPath openfst_bits) \<and>
   level_Plus (Some 2) (Some 2) = Some 2 \<and>
   (level_Plus (Some 2) (Some 1) = Some 2 \<or> level_Plus (Some 2) (Some 1) = Some 1) \<and>
   Test tagged_tester 1 True tagged_draws [] = ((Return (), []), tagged_draws) \<and>
   int 0 < 1 \<and>
   truth (7 AND kCommutative openfst_bits) \<and>
   tagged_Plus (Some (1, 1)) (Some (0, 0)) = Some (1, 1) \<and>
   tagged_ApproxEqual (tagged_Times (Some (1, 1)) (Some (2, 2)))
     (tagged_Times (Some (2, 2)) (Some (1, 1))) \<and>
   tagged_Times (Some (1, 1)) (Some (2, 2)) \<noteq> tagged_Times (Some (2, 2)) (Some (1, 1))"
  using two_equality_standards [OF level_run, of 1] level_run
    two_equality_standards [OF tagged_run, of 0] tagged_run
  by (simp only: tagged_round)
    (simp add: drawn_simps level_defs tagged_defs tagged_tester_def truth_def)


text \<open>
  Claim C3, as stated, fails in four ways, each by a guard of the code. The checks of
  \<^verbatim>\<open>Divide\<close> with a \<^verbatim>\<open>NoWeight\<close> operand are made only when the division test is
  enabled: with a division that gives a member for level 1 divided on the right by
  \<^verbatim>\<open>NoWeight\<close>, a run without the division test returns. Right division is checked only
  when \<^verbatim>\<open>RightSemiring\<close> is declared: with the same division a run with the division test
  returns on a weight type that declares \<^verbatim>\<open>LeftSemiring\<close>, \<^verbatim>\<open>Idempotent\<close> and \<^verbatim>\<open>Path\<close>
  only. Left division is checked only when \<^verbatim>\<open>LeftSemiring\<close> is declared: with the division
  that is careless on the left a run returns on a weight type that declares
  \<^verbatim>\<open>RightSemiring\<close>, \<^verbatim>\<open>Idempotent\<close> and \<^verbatim>\<open>Path\<close> only. And only the first weight of a
  round is checked: on the class whose \<^verbatim>\<open>Plus\<close> gives level 2 for level 2 and
  \<^verbatim>\<open>NoWeight\<close>, a run whose second and third draw are level 2 returns.
\<close>

theorem noweight_checks_are_guarded:
  "(Test (level_tester 31 (careless_Divide DIVIDE_RIGHT)) 1 False [Some 1, Some 2, Some 0] [] =
      ((Return (), []), [Some 1, Some 2, Some 0]) \<and>
    round_w1 (level_tester 31 (careless_Divide DIVIDE_RIGHT)) [Some 1, Some 2, Some 0] 0 = Some 1 \<and>
    Member (level_weight 31 (careless_Divide DIVIDE_RIGHT)) (Some 1) \<and>
    Member (level_weight 31 (careless_Divide DIVIDE_RIGHT))
      (Divide (level_weight 31 (careless_Divide DIVIDE_RIGHT)) (Some 1)
         (NoWeight (level_weight 31 (careless_Divide DIVIDE_RIGHT))) DIVIDE_RIGHT)) \<and>
   (Test (level_tester 25 (careless_Divide DIVIDE_RIGHT)) 1 True [Some 1, Some 2, Some 0] [] =
      ((Return (), []), [Some 1, Some 2, Some 0]) \<and>
    round_w1 (level_tester 25 (careless_Divide DIVIDE_RIGHT)) [Some 1, Some 2, Some 0] 0 = Some 1 \<and>
    Member (level_weight 25 (careless_Divide DIVIDE_RIGHT)) (Some 1) \<and>
    Member (level_weight 25 (careless_Divide DIVIDE_RIGHT))
      (Divide (level_weight 25 (careless_Divide DIVIDE_RIGHT)) (Some 1)
         (NoWeight (level_weight 25 (careless_Divide DIVIDE_RIGHT))) DIVIDE_RIGHT)) \<and>
   (Test (level_tester 26 (careless_Divide DIVIDE_LEFT)) 1 True [Some 1, Some 2, Some 0] [] =
      ((Return (), []), [Some 1, Some 2, Some 0]) \<and>
    round_w1 (level_tester 26 (careless_Divide DIVIDE_LEFT)) [Some 1, Some 2, Some 0] 0 = Some 1 \<and>
    Member (level_weight 26 (careless_Divide DIVIDE_LEFT)) (Some 1) \<and>
    Member (level_weight 26 (careless_Divide DIVIDE_LEFT))
      (Divide (level_weight 26 (careless_Divide DIVIDE_LEFT)) (Some 1)
         (NoWeight (level_weight 26 (careless_Divide DIVIDE_LEFT))) DIVIDE_LEFT)) \<and>
   (Test (tester lenient_weight) 1 True [Some 1, Some 2, Some 2] [] =
      ((Return (), []), [Some 1, Some 2, Some 2]) \<and>
    drawn (tester lenient_weight) [Some 1, Some 2, Some 2] 1 = Some 2 \<and>
    drawn (tester lenient_weight) [Some 1, Some 2, Some 2] 2 = Some 2 \<and>
    Member lenient_weight (Some 2) \<and>
    Member lenient_weight (Plus_w lenient_weight (Some 2) (NoWeight lenient_weight)))"
proof -
  have run1: "Test (level_tester 31 (careless_Divide DIVIDE_RIGHT)) 1 False
                [Some 1, Some 2, Some 0] [] = ((Return (), []), [Some 1, Some 2, Some 0])"
    by (simp add: harness_defs level_defs careless_Divide_def)
  have run2: "Test (level_tester 25 (careless_Divide DIVIDE_RIGHT)) 1 True
                [Some 1, Some 2, Some 0] [] = ((Return (), []), [Some 1, Some 2, Some 0])"
    by (simp add: harness_defs level_defs careless_Divide_def)
  have run3: "Test (level_tester 26 (careless_Divide DIVIDE_LEFT)) 1 True
                [Some 1, Some 2, Some 0] [] = ((Return (), []), [Some 1, Some 2, Some 0])"
    by (simp add: harness_defs level_defs careless_Divide_def)
  have rest: "round_w1 (level_tester p (careless_Divide side)) [Some 1, Some 2, Some 0] 0 = Some 1 \<and>
    Member (level_weight p (careless_Divide side)) (Some 1) \<and>
    Member (level_weight p (careless_Divide side))
      (Divide (level_weight p (careless_Divide side)) (Some 1)
         (NoWeight (level_weight p (careless_Divide side))) side)" for p side
    by (simp add: drawn_simps level_tester_def tester_def level_weight_def careless_Divide_def
        level_Member_def)
  have rest4: "drawn (tester lenient_weight) [Some 1, Some 2, Some 2] 1 = Some 2 \<and>
    drawn (tester lenient_weight) [Some 1, Some 2, Some 2] 2 = Some 2 \<and>
    Member lenient_weight (Some 2) \<and>
    Member lenient_weight (Plus_w lenient_weight (Some 2) (NoWeight lenient_weight))"
    by (simp add: drawn_simps tester_def lenient_weight_def lenient_Plus_def level_weight_def
        level_Member_def)
  from run1 run2 run3 lenient_run rest [of 31 DIVIDE_RIGHT] rest [of 25 DIVIDE_RIGHT]
    rest [of 26 DIVIDE_LEFT] rest4
  show ?thesis by blast
qed

text \<open>
  Claim C3, amended. In every round the harness asserts for the first weight \<^verbatim>\<open>w1\<close> of the
  round, as \<^verbatim>\<open>TestSemiring\<close> and \<^verbatim>\<open>TestDivision\<close> receive it, that \<^verbatim>\<open>NoWeight()\<close> is
  not a member and that \<^verbatim>\<open>Plus\<close> and \<^verbatim>\<open>Times\<close> with a \<^verbatim>\<open>NoWeight\<close> operand on either
  side give a non-member. When the division test is enabled it asserts that \<^verbatim>\<open>Divide\<close>
  with a \<^verbatim>\<open>NoWeight\<close> dividend or divisor gives a non-member, for left division if
  \<^verbatim>\<open>LeftSemiring\<close> is declared and for right division if \<^verbatim>\<open>RightSemiring\<close> is declared.
\<close>

theorem noweight_checks:
  fixes T :: "('w, 'r, 'g) WeightTester" and g :: 'g and k :: nat
  defines "W \<equiv> Weight T"
  defines "P \<equiv> Properties (Weight T)"
  defines "K \<equiv> weight_bits T"
  defines "w1 \<equiv> round_w1 T g k"
  assumes "Test T n td g cerr = ((Return u, c'), g')" and "int k < n"
  shows "\<not> Member W (NoWeight W) \<and>
         \<not> Member W (Plus_w W w1 (NoWeight W)) \<and>
         \<not> Member W (Plus_w W (NoWeight W) w1) \<and>
         \<not> Member W (Times_w W w1 (NoWeight W)) \<and>
         \<not> Member W (Times_w W (NoWeight W) w1) \<and>
         (td \<and> truth (P AND kLeftSemiring K) \<longrightarrow>
            \<not> Member W (Divide W w1 (NoWeight W) DIVIDE_LEFT) \<and>
            \<not> Member W (Divide W (NoWeight W) w1 DIVIDE_LEFT)) \<and>
         (td \<and> truth (P AND kRightSemiring K) \<longrightarrow>
            \<not> Member W (Divide W w1 (NoWeight W) DIVIDE_RIGHT) \<and>
            \<not> Member W (Divide W (NoWeight W) w1 DIVIDE_RIGHT))"
proof -
  from Test_Return_round(1) [OF assms(5,6)] obtain a b where
    "TestSemiring K W (FILE T) w1 (round_w2 T g k) (round_w3 T g k) a = (Return (), b)"
    unfolding W_def K_def w1_def by blast
  note semiring = TestSemiring_Return(9-13) [OF this]
  have division: "truth (P AND kLeftSemiring K) \<longrightarrow>
            \<not> Member W (Divide W w1 (NoWeight W) DIVIDE_LEFT) \<and>
            \<not> Member W (Divide W (NoWeight W) w1 DIVIDE_LEFT)"
    "truth (P AND kRightSemiring K) \<longrightarrow>
            \<not> Member W (Divide W w1 (NoWeight W) DIVIDE_RIGHT) \<and>
            \<not> Member W (Divide W (NoWeight W) w1 DIVIDE_RIGHT)" if td
  proof -
    from Test_Return_round(2) [OF assms(5,6) that] obtain a b where
      "TestDivision K W (FILE T) w1 (round_w2 T g k) a = (Return (), b)"
      unfolding W_def K_def w1_def by blast
    note d = TestDivision_Return(1,2) [OF this]
    from d(1) show "truth (P AND kLeftSemiring K) \<longrightarrow>
            \<not> Member W (Divide W w1 (NoWeight W) DIVIDE_LEFT) \<and>
            \<not> Member W (Divide W (NoWeight W) w1 DIVIDE_LEFT)"
      unfolding P_def W_def by blast
    from d(2) show "truth (P AND kRightSemiring K) \<longrightarrow>
            \<not> Member W (Divide W w1 (NoWeight W) DIVIDE_RIGHT) \<and>
            \<not> Member W (Divide W (NoWeight W) w1 DIVIDE_RIGHT)"
      unfolding P_def W_def by blast
  qed
  from semiring division show ?thesis by blast
qed

theorem noweight_checks_witness:
  "Test (level_tester 31 level_Divide) 2 True [Some 1, Some 2, Some 0, Some 2] [] =
     ((Return (), []), [Some 0, Some 2, Some 1, Some 2]) \<and>
   int 1 < 2 \<and>
   round_w1 (level_tester 31 level_Divide) [Some 1, Some 2, Some 0, Some 2] 1 = Some 2 \<and>
   truth (31 AND kLeftSemiring openfst_bits) \<and>
   truth (31 AND kRightSemiring openfst_bits) \<and>
   \<not> level_Member None \<and>
   \<not> level_Member (level_Plus (Some 2) None) \<and>
   \<not> level_Member (level_Times None (Some 2)) \<and>
   \<not> level_Member (level_Divide (Some 2) None DIVIDE_LEFT) \<and>
   \<not> level_Member (level_Divide None (Some 2) DIVIDE_RIGHT)"
  using noweight_checks [OF level_run, of 1] level_run
  by (simp add: drawn_simps level_defs truth_def)

text \<open>
  Claim C4, as stated, fails: the harness never compares the left quotient with the right
  quotient. With a division whose right quotient of level 1 by level 1 is level 2 and whose
  left quotient is level 1, on a weight type that declares \<^verbatim>\<open>Commutative\<close>, a run with the
  division test returns, although the two quotients of \<^verbatim>\<open>p = Times(w1, w2)\<close> by \<^verbatim>\<open>w1\<close> are
  neither equal nor \<^verbatim>\<open>ApproxEqual\<close>.
\<close>

theorem commutative_quotients_not_compared:
  "Test (level_tester 31 skewed_Divide) 1 True [Some 1, Some 1, Some 0] [] =
     ((Return (), []), [Some 1, Some 1, Some 0]) \<and>
   truth (Properties (level_weight 31 skewed_Divide) AND kCommutative openfst_bits) \<and>
   round_w1 (level_tester 31 skewed_Divide) [Some 1, Some 1, Some 0] 0 = Some 1 \<and>
   round_w2 (level_tester 31 skewed_Divide) [Some 1, Some 1, Some 0] 0 = Some 1 \<and>
   Divide (level_weight 31 skewed_Divide)
     (Times_w (level_weight 31 skewed_Divide) (Some 1) (Some 1)) (Some 1) DIVIDE_LEFT = Some 1 \<and>
   Divide (level_weight 31 skewed_Divide)
     (Times_w (level_weight 31 skewed_Divide) (Some 1) (Some 1)) (Some 1) DIVIDE_RIGHT = Some 2 \<and>
   \<not> ApproxEqual (level_weight 31 skewed_Divide) (Some 1) (Some 2) \<and>
   \<not> equal_w (level_weight 31 skewed_Divide) (Some 1) (Some 2)"
proof -
  have run: "Test (level_tester 31 skewed_Divide) 1 True [Some 1, Some 1, Some 0] [] =
     ((Return (), []), [Some 1, Some 1, Some 0])"
    by (simp add: harness_defs level_defs skewed_Divide_def)
  have rest: "truth (Properties (level_weight 31 skewed_Divide) AND kCommutative openfst_bits) \<and>
   round_w1 (level_tester 31 skewed_Divide) [Some 1, Some 1, Some 0] 0 = Some 1 \<and>
   round_w2 (level_tester 31 skewed_Divide) [Some 1, Some 1, Some 0] 0 = Some 1 \<and>
   Divide (level_weight 31 skewed_Divide)
     (Times_w (level_weight 31 skewed_Divide) (Some 1) (Some 1)) (Some 1) DIVIDE_LEFT = Some 1 \<and>
   Divide (level_weight 31 skewed_Divide)
     (Times_w (level_weight 31 skewed_Divide) (Some 1) (Some 1)) (Some 1) DIVIDE_RIGHT = Some 2 \<and>
   \<not> ApproxEqual (level_weight 31 skewed_Divide) (Some 1) (Some 2) \<and>
   \<not> equal_w (level_weight 31 skewed_Divide) (Some 1) (Some 2)"
    by (simp add: drawn_simps level_defs skewed_Divide_def truth_def)
  from run rest show ?thesis by (rule conjI)
qed

text \<open>
  Claim C4, amended. When the weight type declares \<^verbatim>\<open>Commutative\<close> and the division test
  is enabled, every round divides \<^verbatim>\<open>p = Times(w1, w2)\<close> by \<^verbatim>\<open>w1\<close> on the right and, when
  the quotient \<^verbatim>\<open>d\<close> is a member, asserts that \<^verbatim>\<open>p\<close> is \<^verbatim>\<open>ApproxEqual\<close> to
  \<^verbatim>\<open>Times(d, w1)\<close>; \<^verbatim>\<open>w1\<close> and \<^verbatim>\<open>w2\<close> are the first two weights of the round as
  \<^verbatim>\<open>TestDivision\<close> receives them.
\<close>

theorem commutative_right_division_checked:
  fixes T :: "('w, 'r, 'g) WeightTester" and g :: 'g and k :: nat
  defines "W \<equiv> Weight T"
  defines "w1 \<equiv> round_w1 T g k"
  defines "w2 \<equiv> round_w2 T g k"
  defines "p \<equiv> Times_w (Weight T) (round_w1 T g k) (round_w2 T g k)"
  defines "d \<equiv> Divide (Weight T)
                 (Times_w (Weight T) (round_w1 T g k) (round_w2 T g k))
                 (round_w1 T g k) DIVIDE_RIGHT"
  assumes "Test T n True g cerr = ((Return u, c'), g')" and "int k < n"
    and "truth (Properties (Weight T) AND kCommutative (weight_bits T))"
    and "Member (Weight T) d"
  shows "ApproxEqual W p (Times_w W d w1)"
proof -
  from Test_Return_round(2) [OF assms(6,7)] obtain a b where
    "TestDivision (weight_bits T) (Weight T) (FILE T)
       (round_w1 T g k) (round_w2 T g k) a = (Return (), b)"
    by blast
  from TestDivision_Return(3) [OF this assms(8)] assms(9) show ?thesis
    unfolding W_def w1_def w2_def p_def d_def by simp
qed

theorem commutative_right_division_checked_witness:
  "Test (level_tester 31 level_Divide) 2 True [Some 1, Some 2, Some 0, Some 2] [] =
     ((Return (), []), [Some 0, Some 2, Some 1, Some 2]) \<and>
   int 1 < 2 \<and>
   truth (Properties (Weight (level_tester 31 level_Divide)) AND
          kCommutative (weight_bits (level_tester 31 level_Divide))) \<and>
   round_w1 (level_tester 31 level_Divide) [Some 1, Some 2, Some 0, Some 2] 1 = Some 2 \<and>
   round_w2 (level_tester 31 level_Divide) [Some 1, Some 2, Some 0, Some 2] 1 = Some 1 \<and>
   level_Member (level_Divide (level_Times (Some 2) (Some 1)) (Some 2) DIVIDE_RIGHT) \<and>
   level_Times (Some 2) (Some 1) =
     level_Times (level_Divide (level_Times (Some 2) (Some 1)) (Some 2) DIVIDE_RIGHT) (Some 2)"
proof -
  have comm: "truth (Properties (Weight (level_tester 31 level_Divide)) AND
          kCommutative (weight_bits (level_tester 31 level_Divide)))"
    by (simp add: level_tester_def tester_def level_weight_def openfst_bits_def truth_def)
  have mem: "Member (Weight (level_tester 31 level_Divide))
     (Divide (Weight (level_tester 31 level_Divide))
        (Times_w (Weight (level_tester 31 level_Divide))
           (round_w1 (level_tester 31 level_Divide) [Some 1, Some 2, Some 0, Some 2] 1)
           (round_w2 (level_tester 31 level_Divide) [Some 1, Some 2, Some 0, Some 2] 1))
        (round_w1 (level_tester 31 level_Divide) [Some 1, Some 2, Some 0, Some 2] 1)
        DIVIDE_RIGHT)"
    by (simp add: drawn_simps level_defs)
  have lt: "int 1 < 2" by simp
  show ?thesis
    using commutative_right_division_checked [OF level_run lt comm mem] level_run comm
    by (simp add: drawn_simps level_defs)
qed

end
